theory Spec2Isabelle
  imports Main "HOL-Library.Word"
begin

unbundle bit_operations_syntax

section \<open>The ext2 VFS driver of KallistiOS (addons/libkosext2fs/fs\_ext2.c)\<close>

text \<open>
  The driver keeps three globals: the mutex \<open>ext2_mutex\<close>, the table \<open>fh\<close> of
  \<open>MAX_EXT2_FILES\<close> open files and the list \<open>ext2_fses\<close> of mounts. Every entry point
  is modelled as a function from the state before the call to an outcome that carries the
  state after it. The ext2 backend (inode.c, directory.c, ext2fs.c), the name manager, the
  allocator and the clock are not part of fs\_ext2.c: they are a parameter of the model, a
  record of functions over a backend state of any type.

  Integer types are those of the SH-4 target the driver is written for (ILP32, newlib):
  \<open>int\<close>, \<open>size_t\<close>, \<open>ssize_t\<close>, \<open>off_t\<close> and \<open>file_t\<close> are 32 bits wide,
  \<open>uint64_t\<close> is 64 bits wide. A signed value and an unsigned one of the same width are the
  same word; \<open>sint\<close> and \<open>uint\<close> read it.
\<close>

type_synonym u8 = "8 word"
type_synonym u16 = "16 word"
type_synonym u32 = "32 word"
type_synonym u64 = "64 word"

text \<open>The address of an \<open>ext2_inode_t\<close> object in the backend's inode cache.\<close>
type_synonym iptr = nat

subsection \<open>Constants of headers\<close>

text \<open>
  The values of the macros the driver tests come from headers (sys/fcntl.h, kos/fs.h,
  ext2/fs\_ext2.h, inode.h). The model takes them as a parameter; \<open>kos_consts\<close> below is
  the instance with the values of newlib and KallistiOS.
\<close>

record kconsts =
  O_WRONLY :: u32
  O_TRUNC :: u32
  O_CREAT :: u32
  O_DIR :: u32
  FS_EXT2_MOUNT_READWRITE :: u32
  EXT2_S_IFDIR :: u16

definition kos_consts :: kconsts where
  "kos_consts = \<lparr> O_WRONLY = 0x0001, O_TRUNC = 0x0400, O_CREAT = 0x0200, O_DIR = 0x1000,
     FS_EXT2_MOUNT_READWRITE = 0x00000001, EXT2_S_IFDIR = 0x4000 \<rparr>"

definition MAX_EXT2_FILES :: int where
  "MAX_EXT2_FILES = 16"

definition SEEK_SET :: int where "SEEK_SET = 0"
definition SEEK_CUR :: int where "SEEK_CUR = 1"
definition SEEK_END :: int where "SEEK_END = 2"

datatype errno = E_unset | EPERM | ENOENT | EIO | EBADF | ENOMEM | EBUSY | EEXIST
  | ENOTDIR | EISDIR | EINVAL | ENFILE | EROFS | ENOTEMPTY | E_other nat

subsection \<open>Data\<close>

text \<open>The fields of \<open>ext2_inode_t\<close> the driver reads or writes.\<close>

record ext2_inode =
  i_mode :: u16
  i_uid :: u16
  i_size :: u32
  i_atime :: u32
  i_ctime :: u32
  i_mtime :: u32
  i_gid :: u16
  i_links_count :: u16
  l_i_uid_high :: u16
  l_i_gid_high :: u16

text \<open>An on-disk directory entry, \<open>ext2_dirent_t\<close>.\<close>

record ext2_dirent =
  de_inode :: u32
  rec_len :: u16
  name_len :: u8
  de_name :: string

text \<open>The entry \<open>dirent_t\<close> that readdir hands to the caller.\<close>

record dirent_t =
  dt_size :: u32
  dt_name :: string
  dt_time :: u32
  dt_attr :: u32

text \<open>A mount, \<open>fs_ext2_fs_t\<close>: the VFS handler, the backend filesystem and the flags.\<close>

record fs_ext2_fs =
  mnt_vfsh :: nat
  mnt_fs :: nat
  mount_flags :: u32

text \<open>One slot of the table \<open>fh\<close>.\<close>

record fh_slot =
  fh_inode_num :: u32
  fh_mode :: u32
  fh_ptr :: u64
  fh_dent :: dirent_t
  fh_inode :: iptr
  fh_fs :: fs_ext2_fs

text \<open>
  What the backend is asked to do. An acquisition (by path, by number, by allocation) carries
  the pointer it handed out, or \<open>None\<close> when it failed; a call that can fail carries
  whether it succeeded.
\<close>

datatype event =
    Inode_by_path string "iptr option"
  | Inode_get u32 "iptr option"
  | Inode_alloc u32 "iptr option"
  | Inode_put iptr
  | Inode_deref u32 bool bool
  | Inode_mark_dirty iptr
  | Dir_entry iptr string bool
  | Dir_is_empty iptr
  | Dir_rm_entry iptr string bool
  | Dir_add_entry iptr string u32 bool
  | Dir_redir_entry iptr string u32 bool
  | Dir_create_empty iptr u32 u32 bool
  | Read_block iptr u32 bool

text \<open>
  The backend's memory: the inode objects the driver holds pointers to, and whatever else
  the backend keeps (\<open>disk\<close>).
\<close>

record 'd world =
  heap :: "iptr \<Rightarrow> ext2_inode"
  disk :: 'd

record 'd state =
  initted :: bool
  ext2_mutex :: bool
  fh :: "nat \<Rightarrow> fh_slot"
  ext2_fses :: "nat list"
  mounts :: "nat \<Rightarrow> fs_ext2_fs option"
  handlers :: "nat \<Rightarrow> (string \<times> nat) option"
  errno :: errno
  world :: "'d world"
  trace :: "event list"

text \<open>
  A call returns a value, or never returns because it waits for a mutex that is held
  (\<open>ext2_mutex\<close> is a \<open>MUTEX_TYPE_NORMAL\<close> mutex: it is not recursive), or reads
  memory it must not read (the table \<open>fh\<close> outside its bounds, a freed object).
\<close>

datatype ('r, 's) outcome = Returns 'r 's | Blocks 's | Undefined_behaviour 's

fun out_state :: "('r, 's) outcome \<Rightarrow> 's" where
  "out_state (Returns r s) = s"
| "out_state (Blocks s) = s"
| "out_state (Undefined_behaviour s) = s"

fun returned :: "('r, 's) outcome \<Rightarrow> 'r option" where
  "returned (Returns r s) = Some r"
| "returned (Blocks s) = None"
| "returned (Undefined_behaviour s) = None"

text \<open>
  Modelled from the spec: \<open>mutex_lock\<close> and \<open>mutex_unlock\<close> belong to the kernel and are
  not part of \<open>fs_ext2.c\<close>. The lock is one flag; ``the lock is non-reentrant by design:
  nested acquisition is a logic error, not a supported pattern'', so an operation that reaches
  \<open>mutex_lock\<close> with the flag set does not return (\<open>Blocks\<close>); the operations test the
  flag before they call \<open>mutex_lock\<close>.
\<close>

definition mutex_lock :: "'d state \<Rightarrow> 'd state" where
  "mutex_lock s = s\<lparr>ext2_mutex := True\<rparr>"

definition mutex_unlock :: "'d state \<Rightarrow> 'd state" where
  "mutex_unlock s = s\<lparr>ext2_mutex := False\<rparr>"

definition set_errno :: "errno \<Rightarrow> 'd state \<Rightarrow> 'd state" where
  "set_errno e s = s\<lparr>errno := e\<rparr>"

definition fh_modify :: "nat \<Rightarrow> (fh_slot \<Rightarrow> fh_slot) \<Rightarrow> 'd state \<Rightarrow> 'd state" where
  "fh_modify fd f s = s\<lparr>fh := (fh s)(fd := f (fh s fd))\<rparr>"

text \<open>The object behind \<open>fh[fd].inode\<close>.\<close>

definition fh_inode_obj :: "'d state \<Rightarrow> nat \<Rightarrow> ext2_inode" where
  "fh_inode_obj s fd = heap (world s) (fh_inode (fh s fd))"

subsection \<open>The backend\<close>

text \<open>
  The functions fs\_ext2.c calls and does not define. A failing call that returns a
  negative error number \<open>-e\<close> (or stores \<open>e\<close> through an error pointer) is
  \<open>Inl e\<close> or \<open>Some e\<close>; a call that returns a pointer returns \<open>None\<close> for
  \<open>NULL\<close>. \<open>bk_dirent_at block off\<close> is the entry read through the cast
  \<open>(ext2_dirent_t *)(block + off)\<close>; \<open>bk_strdup\<close> tells whether \<open>strdup\<close> finds
  memory, \<open>bk_time\<close> is \<open>time(NULL)\<close>.
\<close>

record kos_blockdev =
  dev_id :: nat
  write_blocks :: bool

record 'd backend =
  bk_inode_by_path :: "nat \<Rightarrow> string \<Rightarrow> 'd world \<Rightarrow> (errno + iptr \<times> u32) \<times> 'd world"
  bk_inode_get :: "nat \<Rightarrow> u32 \<Rightarrow> 'd world \<Rightarrow> iptr option \<times> 'd world"
  bk_inode_put :: "iptr \<Rightarrow> 'd world \<Rightarrow> 'd world"
  bk_inode_alloc :: "nat \<Rightarrow> u32 \<Rightarrow> 'd world \<Rightarrow> (errno + iptr \<times> u32) \<times> 'd world"
  bk_inode_deref :: "nat \<Rightarrow> u32 \<Rightarrow> bool \<Rightarrow> 'd world \<Rightarrow> errno option \<times> 'd world"
  bk_inode_mark_dirty :: "iptr \<Rightarrow> 'd world \<Rightarrow> 'd world"
  bk_dir_entry :: "nat \<Rightarrow> iptr \<Rightarrow> string \<Rightarrow> 'd world \<Rightarrow> ext2_dirent option \<times> 'd world"
  bk_dir_is_empty :: "nat \<Rightarrow> iptr \<Rightarrow> 'd world \<Rightarrow> int \<times> 'd world"
  bk_dir_rm_entry :: "nat \<Rightarrow> iptr \<Rightarrow> string \<Rightarrow> 'd world \<Rightarrow> (errno + u32) \<times> 'd world"
  bk_dir_add_entry ::
    "nat \<Rightarrow> iptr \<Rightarrow> string \<Rightarrow> u32 \<Rightarrow> iptr \<Rightarrow> 'd world \<Rightarrow> errno option \<times> 'd world"
  bk_dir_redir_entry ::
    "nat \<Rightarrow> iptr \<Rightarrow> string \<Rightarrow> u32 \<Rightarrow> 'd world \<Rightarrow> errno option \<times> 'd world"
  bk_dir_create_empty ::
    "nat \<Rightarrow> iptr \<Rightarrow> u32 \<Rightarrow> u32 \<Rightarrow> 'd world \<Rightarrow> errno option \<times> 'd world"
  bk_inode_read_block :: "nat \<Rightarrow> iptr \<Rightarrow> u32 \<Rightarrow> 'd world \<Rightarrow> (errno + u8 list) \<times> 'd world"
  bk_block_size :: "nat \<Rightarrow> 'd world \<Rightarrow> u32"
  bk_log_block_size :: "nat \<Rightarrow> 'd world \<Rightarrow> u32"
  bk_dirent_at :: "u8 list \<Rightarrow> nat \<Rightarrow> ext2_dirent"
  bk_strdup :: "string \<Rightarrow> 'd world \<Rightarrow> bool"
  bk_time :: "'d world \<Rightarrow> u32"
  bk_fs_init :: "kos_blockdev \<Rightarrow> u32 \<Rightarrow> 'd world \<Rightarrow> nat option \<times> 'd world"
  bk_fs_shutdown :: "nat \<Rightarrow> 'd world \<Rightarrow> 'd world"
  bk_malloc :: "'d world \<Rightarrow> nat option \<times> 'd world"
  bk_nmmgr_handler_add :: "nat \<Rightarrow> string \<Rightarrow> 'd world \<Rightarrow> int \<times> 'd world"
  bk_nmmgr_handler_remove :: "nat \<Rightarrow> 'd world \<Rightarrow> 'd world"

text \<open>A call into the backend changes the backend's memory and is recorded in the trace.\<close>

definition called :: "'d world \<Rightarrow> event \<Rightarrow> 'd state \<Rightarrow> 'd state" where
  "called w ev s = s\<lparr>world := w, trace := trace s @ [ev]\<rparr>"

definition ext2_inode_by_path ::
  "'d backend \<Rightarrow> nat \<Rightarrow> string \<Rightarrow> 'd state \<Rightarrow> (errno + iptr \<times> u32) \<times> 'd state" where
  "ext2_inode_by_path bk fs path s =
     (case bk_inode_by_path bk fs path (world s) of
        (r, w) \<Rightarrow> (r, called w (Inode_by_path path (case r of Inl e \<Rightarrow> None | Inr a \<Rightarrow> Some (fst a))) s))"

definition ext2_inode_get ::
  "'d backend \<Rightarrow> nat \<Rightarrow> u32 \<Rightarrow> 'd state \<Rightarrow> iptr option \<times> 'd state" where
  "ext2_inode_get bk fs num s =
     (case bk_inode_get bk fs num (world s) of (r, w) \<Rightarrow> (r, called w (Inode_get num r) s))"

definition ext2_inode_put :: "'d backend \<Rightarrow> iptr \<Rightarrow> 'd state \<Rightarrow> 'd state" where
  "ext2_inode_put bk p s = called (bk_inode_put bk p (world s)) (Inode_put p) s"

definition ext2_inode_alloc ::
  "'d backend \<Rightarrow> nat \<Rightarrow> u32 \<Rightarrow> 'd state \<Rightarrow> (errno + iptr \<times> u32) \<times> 'd state" where
  "ext2_inode_alloc bk fs parent s =
     (case bk_inode_alloc bk fs parent (world s) of
        (r, w) \<Rightarrow> (r, called w (Inode_alloc parent (case r of Inl e \<Rightarrow> None | Inr a \<Rightarrow> Some (fst a))) s))"

definition ext2_inode_deref ::
  "'d backend \<Rightarrow> nat \<Rightarrow> u32 \<Rightarrow> bool \<Rightarrow> 'd state \<Rightarrow> errno option \<times> 'd state" where
  "ext2_inode_deref bk fs num isdir s =
     (case bk_inode_deref bk fs num isdir (world s) of
        (r, w) \<Rightarrow> (r, called w (Inode_deref num isdir (r = None)) s))"

definition ext2_inode_mark_dirty :: "'d backend \<Rightarrow> iptr \<Rightarrow> 'd state \<Rightarrow> 'd state" where
  "ext2_inode_mark_dirty bk p s = called (bk_inode_mark_dirty bk p (world s)) (Inode_mark_dirty p) s"

definition ext2_dir_entry ::
  "'d backend \<Rightarrow> nat \<Rightarrow> iptr \<Rightarrow> string \<Rightarrow> 'd state \<Rightarrow> ext2_dirent option \<times> 'd state" where
  "ext2_dir_entry bk fs dir nm s =
     (case bk_dir_entry bk fs dir nm (world s) of
        (r, w) \<Rightarrow> (r, called w (Dir_entry dir nm (r \<noteq> None)) s))"

definition ext2_dir_is_empty :: "'d backend \<Rightarrow> nat \<Rightarrow> iptr \<Rightarrow> 'd state \<Rightarrow> int \<times> 'd state" where
  "ext2_dir_is_empty bk fs dir s =
     (case bk_dir_is_empty bk fs dir (world s) of (r, w) \<Rightarrow> (r, called w (Dir_is_empty dir) s))"

definition ext2_dir_rm_entry ::
  "'d backend \<Rightarrow> nat \<Rightarrow> iptr \<Rightarrow> string \<Rightarrow> 'd state \<Rightarrow> (errno + u32) \<times> 'd state" where
  "ext2_dir_rm_entry bk fs dir nm s =
     (case bk_dir_rm_entry bk fs dir nm (world s) of
        (r, w) \<Rightarrow> (r, called w (Dir_rm_entry dir nm (case r of Inl e \<Rightarrow> False | Inr n \<Rightarrow> True)) s))"

definition ext2_dir_add_entry ::
  "'d backend \<Rightarrow> nat \<Rightarrow> iptr \<Rightarrow> string \<Rightarrow> u32 \<Rightarrow> iptr \<Rightarrow> 'd state \<Rightarrow> errno option \<times> 'd state" where
  "ext2_dir_add_entry bk fs dir nm num ino s =
     (case bk_dir_add_entry bk fs dir nm num ino (world s) of
        (r, w) \<Rightarrow> (r, called w (Dir_add_entry dir nm num (r = None)) s))"

definition ext2_dir_redir_entry ::
  "'d backend \<Rightarrow> nat \<Rightarrow> iptr \<Rightarrow> string \<Rightarrow> u32 \<Rightarrow> 'd state \<Rightarrow> errno option \<times> 'd state" where
  "ext2_dir_redir_entry bk fs dir nm num s =
     (case bk_dir_redir_entry bk fs dir nm num (world s) of
        (r, w) \<Rightarrow> (r, called w (Dir_redir_entry dir nm num (r = None)) s))"

definition ext2_dir_create_empty ::
  "'d backend \<Rightarrow> nat \<Rightarrow> iptr \<Rightarrow> u32 \<Rightarrow> u32 \<Rightarrow> 'd state \<Rightarrow> errno option \<times> 'd state" where
  "ext2_dir_create_empty bk fs ino num parent s =
     (case bk_dir_create_empty bk fs ino num parent (world s) of
        (r, w) \<Rightarrow> (r, called w (Dir_create_empty ino num parent (r = None)) s))"

definition ext2_inode_read_block ::
  "'d backend \<Rightarrow> nat \<Rightarrow> iptr \<Rightarrow> u32 \<Rightarrow> 'd state \<Rightarrow> (errno + u8 list) \<times> 'd state" where
  "ext2_inode_read_block bk fs ino blk s =
     (case bk_inode_read_block bk fs ino blk (world s) of
        (r, w) \<Rightarrow> (r, called w (Read_block ino blk (case r of Inl e \<Rightarrow> False | Inr b \<Rightarrow> True)) s))"

text \<open>The driver's own stores into an inode object (\<open>pinode->i_links_count\<close> and the like).\<close>

definition inode_store :: "iptr \<Rightarrow> (ext2_inode \<Rightarrow> ext2_inode) \<Rightarrow> 'd state \<Rightarrow> 'd state" where
  "inode_store p f s =
     s\<lparr>world := (world s)\<lparr>heap := (heap (world s))(p := f (heap (world s) p))\<rparr>\<rparr>"

text \<open>Inode references a trace acquires and releases.\<close>

fun is_acquire :: "event \<Rightarrow> bool" where
  "is_acquire (Inode_by_path path (Some p)) = True"
| "is_acquire (Inode_get num (Some p)) = True"
| "is_acquire (Inode_alloc parent (Some p)) = True"
| "is_acquire ev = False"

fun is_release :: "event \<Rightarrow> bool" where
  "is_release (Inode_put p) = True"
| "is_release ev = False"

definition acquisitions :: "event list \<Rightarrow> nat" where
  "acquisitions t = length (filter is_acquire t)"

definition releases :: "event list \<Rightarrow> nat" where
  "releases t = length (filter is_release t)"

subsection \<open>seek, tell, total\<close>

text \<open>
  \<open>fh[fd].ptr\<close> is a \<open>uint64_t\<close>, \<open>offset\<close> an \<open>off_t\<close> and \<open>i_size\<close> a
  \<open>uint32_t\<close>. Assigning or adding \<open>offset\<close> to \<open>ptr\<close> converts it to 64 bits with its
  sign (\<open>scast\<close>); \<open>i_size + offset\<close> is computed in 32 bits, unsigned, and widened
  (\<open>ucast\<close>). The \<open>default\<close> branch returns -1 without setting \<open>errno\<close>.
\<close>

definition seek_check_bounds :: "nat \<Rightarrow> 'd state \<Rightarrow> (u32, 'd state) outcome" where
  "seek_check_bounds fd s1 =
     (let s2 = (if fh_ptr (fh s1 fd) > ucast (i_size (fh_inode_obj s1 fd))
                then fh_modify fd (\<lambda>sl. sl\<lparr>fh_ptr := ucast (i_size (fh_inode_obj s1 fd))\<rparr>) s1
                else s1);
          rv = ucast (fh_ptr (fh s2 fd))
      in Returns rv (mutex_unlock s2))"

definition fs_ext2_seek ::
  "kconsts \<Rightarrow> int \<Rightarrow> u32 \<Rightarrow> int \<Rightarrow> 'd state \<Rightarrow> (u32, 'd state) outcome" where
  "fs_ext2_seek K h offset whence s0 =
     (if ext2_mutex s0 then Blocks s0
      else
        let s = mutex_lock s0; fd = h - 1 in
        if fd < 0 then Undefined_behaviour s
        else if fd \<ge> MAX_EXT2_FILES \<or> fh_inode_num (fh s (nat fd)) = 0
                \<or> fh_mode (fh s (nat fd)) AND O_DIR K \<noteq> 0
        then Returns (- 1) (set_errno EINVAL (mutex_unlock s))
        else if whence = SEEK_SET
        then seek_check_bounds (nat fd)
               (fh_modify (nat fd) (\<lambda>sl. sl\<lparr>fh_ptr := scast offset\<rparr>) s)
        else if whence = SEEK_CUR
        then seek_check_bounds (nat fd)
               (fh_modify (nat fd) (\<lambda>sl. sl\<lparr>fh_ptr := fh_ptr sl + scast offset\<rparr>) s)
        else if whence = SEEK_END
        then seek_check_bounds (nat fd)
               (fh_modify (nat fd)
                  (\<lambda>sl. sl\<lparr>fh_ptr := ucast (i_size (fh_inode_obj s (nat fd)) + offset)\<rparr>) s)
        else Returns (- 1) (mutex_unlock s))"

definition fs_ext2_tell :: "kconsts \<Rightarrow> int \<Rightarrow> 'd state \<Rightarrow> (u32, 'd state) outcome" where
  "fs_ext2_tell K h s0 =
     (if ext2_mutex s0 then Blocks s0
      else
        let s = mutex_lock s0; fd = h - 1 in
        if fd < 0 then Undefined_behaviour s
        else if fd \<ge> MAX_EXT2_FILES \<or> fh_inode_num (fh s (nat fd)) = 0
                \<or> fh_mode (fh s (nat fd)) AND O_DIR K \<noteq> 0
        then Returns (- 1) (set_errno EINVAL (mutex_unlock s))
        else Returns (ucast (fh_ptr (fh s (nat fd)))) (mutex_unlock s))"

definition fs_ext2_total :: "kconsts \<Rightarrow> int \<Rightarrow> 'd state \<Rightarrow> (u32, 'd state) outcome" where
  "fs_ext2_total K h s0 =
     (if ext2_mutex s0 then Blocks s0
      else
        let s = mutex_lock s0; fd = h - 1 in
        if fd < 0 then Undefined_behaviour s
        else if fd \<ge> MAX_EXT2_FILES \<or> fh_inode_num (fh s (nat fd)) = 0
                \<or> fh_mode (fh s (nat fd)) AND O_DIR K \<noteq> 0
        then Returns (- 1) (set_errno EINVAL (mutex_unlock s))
        else Returns (i_size (fh_inode_obj s (nat fd))) (mutex_unlock s))"

subsection \<open>open and close\<close>

text \<open>The \<open>for\<close> loop of open: the first slot whose \<open>inode_num\<close> is 0.\<close>

definition find_free_fd :: "'d state \<Rightarrow> nat option" where
  "find_free_fd s = List.find (\<lambda>fd. fh_inode_num (fh s fd) = 0) [0..<nat MAX_EXT2_FILES]"

text \<open>
  open returns \<open>fd + 1\<close>, or 0 for \<open>NULL\<close>. The test for \<open>O_WRONLY\<close> and \<open>O_TRUNC\<close>
  comes before the mutex is taken. When the path does not resolve, the slot's \<open>inode\<close>
  pointer is the one it held before the call, and it is put all the same.
\<close>

definition fs_ext2_open ::
  "kconsts \<Rightarrow> 'd backend \<Rightarrow> fs_ext2_fs \<Rightarrow> string \<Rightarrow> u32 \<Rightarrow> 'd state \<Rightarrow> (int, 'd state) outcome" where
  "fs_ext2_open K bk mnt fn mode s0 =
     (if mode AND (O_WRONLY K OR O_TRUNC K) \<noteq> 0 then Returns 0 (set_errno EROFS s0)
      else if ext2_mutex s0 then Blocks s0
      else
        let s = mutex_lock s0 in
        case find_free_fd s of
          None \<Rightarrow> Returns 0 (mutex_unlock (set_errno ENFILE s))
        | Some fd \<Rightarrow>
            let s = fh_modify fd (\<lambda>sl. sl\<lparr>fh_inode_num := - 1\<rparr>) s in
            (case ext2_inode_by_path bk (mnt_fs mnt) fn s of
               (Inl rv, s) \<Rightarrow>
                 let s = fh_modify fd (\<lambda>sl. sl\<lparr>fh_inode_num := 0\<rparr>) s;
                     s = ext2_inode_put bk (fh_inode (fh s fd)) s;
                     s = mutex_unlock s
                 in Returns 0
                      (set_errno
                         (if rv = ENOENT
                          then (if mode AND O_CREAT K \<noteq> 0 then EROFS else ENOENT)
                          else rv) s)
             | (Inr (ip, num), s) \<Rightarrow>
                 let s = fh_modify fd (\<lambda>sl. sl\<lparr>fh_inode := ip, fh_inode_num := num\<rparr>) s in
                 if i_mode (fh_inode_obj s fd) AND EXT2_S_IFDIR K \<noteq> 0
                    \<and> (mode AND O_WRONLY K \<noteq> 0 \<or> mode AND O_DIR K = 0)
                 then
                   let s = set_errno EISDIR s;
                       s = fh_modify fd (\<lambda>sl. sl\<lparr>fh_inode_num := 0\<rparr>) s;
                       s = ext2_inode_put bk (fh_inode (fh s fd)) s
                   in Returns 0 (mutex_unlock s)
                 else if mode AND O_DIR K \<noteq> 0
                         \<and> i_mode (fh_inode_obj s fd) AND EXT2_S_IFDIR K = 0
                 then
                   let s = set_errno ENOTDIR s;
                       s = fh_modify fd (\<lambda>sl. sl\<lparr>fh_inode_num := 0\<rparr>) s;
                       s = ext2_inode_put bk (fh_inode (fh s fd)) s
                   in Returns 0 (mutex_unlock s)
                 else
                   let s = fh_modify fd (\<lambda>sl. sl\<lparr>fh_mode := mode, fh_ptr := 0, fh_fs := mnt\<rparr>) s
                   in Returns (int fd + 1) (mutex_unlock s)))"

text \<open>
  close tests \<open>fh[fd].mode\<close>, not \<open>fh[fd].inode_num\<close>. \<open>file_t\<close> is an \<open>int\<close>: for
  the handle 0, \<open>fd\<close> is -1, the test \<open>fd < MAX_EXT2_FILES\<close> passes and \<open>fh[-1]\<close> is read.
\<close>

definition fs_ext2_close :: "'d backend \<Rightarrow> int \<Rightarrow> 'd state \<Rightarrow> (unit, 'd state) outcome" where
  "fs_ext2_close bk h s0 =
     (if ext2_mutex s0 then Blocks s0
      else
        let s = mutex_lock s0; fd = h - 1 in
        if fd < 0 then Undefined_behaviour s
        else if fd < MAX_EXT2_FILES \<and> fh_mode (fh s (nat fd)) \<noteq> 0
        then
          let s = ext2_inode_put bk (fh_inode (fh s (nat fd))) s;
              s = fh_modify (nat fd) (\<lambda>sl. sl\<lparr>fh_inode_num := 0, fh_mode := 0\<rparr>) s
          in Returns () (mutex_unlock s)
        else Returns () (mutex_unlock s))"

subsection \<open>read\<close>

text \<open>
  The \<open>while (cnt)\<close> loop of read. It ends when a block cannot be fetched (the flag is
  \<open>False\<close>, \<open>errno\<close> is the backend's) or when \<open>cnt\<close> has reached 0. The bytes copied
  into the caller's buffer are collected in \<open>bbuf\<close>. With a block size of 0 the loop would
  not make progress, so it is a partial function.
\<close>

partial_function (option) read_blocks ::
  "'d backend \<Rightarrow> nat \<Rightarrow> nat \<Rightarrow> u32 \<Rightarrow> u32 \<Rightarrow> u32 \<Rightarrow> u8 list \<Rightarrow> 'd state
     \<Rightarrow> (bool \<times> u8 list \<times> 'd state) option" where
  "read_blocks bk fd fs lbs bs cnt bbuf s =
     (if cnt = 0 then Some (True, bbuf, s)
      else
        case ext2_inode_read_block bk fs (fh_inode (fh s fd))
               (ucast (drop_bit (unat lbs) (fh_ptr (fh s fd)))) s of
          (Inl e, s1) \<Rightarrow> Some (False, bbuf, set_errno e s1)
        | (Inr block, s1) \<Rightarrow>
            if cnt > bs
            then read_blocks bk fd fs lbs bs (cnt - bs) (bbuf @ take (unat bs) block)
                   (fh_modify fd (\<lambda>sl. sl\<lparr>fh_ptr := fh_ptr sl + ucast bs\<rparr>) s1)
            else Some (True, bbuf @ take (unat cnt) block,
                   fh_modify fd (\<lambda>sl. sl\<lparr>fh_ptr := fh_ptr sl + ucast cnt\<rparr>) s1))"

definition read_finish ::
  "u32 \<Rightarrow> (bool \<times> u8 list \<times> 'd state) option \<Rightarrow> (u32 \<times> u8 list, 'd state) outcome option" where
  "read_finish rv r =
     (case r of
        None \<Rightarrow> None
      | Some (ok, bbuf, s) \<Rightarrow> Some (Returns (if ok then rv else - 1, bbuf) (mutex_unlock s)))"

text \<open>
  read returns the count as an \<open>ssize_t\<close> together with the bytes it copied. \<open>cnt\<close> is
  a \<open>size_t\<close>: \<open>fh[fd].ptr + cnt\<close> and \<open>i_size - fh[fd].ptr\<close> are computed in 64 bits and
  the difference is cut to 32. \<open>bo\<close> is \<open>fh[fd].ptr & ((1 << lbs) - 1)\<close>, the mask an
  \<open>int\<close>. \<open>read_locked\<close> is the function from the clamping of \<open>cnt\<close> on, after the
  handle has been checked.
\<close>

definition read_locked ::
  "'d backend \<Rightarrow> nat \<Rightarrow> u32 \<Rightarrow> 'd state \<Rightarrow> (u32 \<times> u8 list, 'd state) outcome option" where
  "read_locked bk f cnt0 s =
     (let cnt = (if fh_ptr (fh s f) + ucast cnt0 > ucast (i_size (fh_inode_obj s f))
                 then ucast (ucast (i_size (fh_inode_obj s f)) - fh_ptr (fh s f))
                 else cnt0);
          fs = mnt_fs (fh_fs (fh s f));
          bs = bk_block_size bk fs (world s);
          lbs = bk_log_block_size bk fs (world s);
          rv = cnt;
          bo = (ucast (fh_ptr (fh s f) AND scast (push_bit (unat lbs) (1 :: u32) - 1)) :: u32)
      in
      if bo \<noteq> 0
      then
        (case ext2_inode_read_block bk fs (fh_inode (fh s f))
                (ucast (drop_bit (unat lbs) (fh_ptr (fh s f)))) s of
           (Inl e, s1) \<Rightarrow> Some (Returns (- 1, []) (mutex_unlock (set_errno e s1)))
         | (Inr block, s1) \<Rightarrow>
             if cnt > bs - bo
             then read_finish rv
                    (read_blocks bk f fs lbs bs (cnt - (bs - bo))
                       (take (unat (bs - bo)) (drop (unat bo) block))
                       (fh_modify f (\<lambda>sl. sl\<lparr>fh_ptr := fh_ptr sl + ucast (bs - bo)\<rparr>) s1))
             else read_finish rv
                    (read_blocks bk f fs lbs bs 0
                       (take (unat cnt) (drop (unat bo) block))
                       (fh_modify f (\<lambda>sl. sl\<lparr>fh_ptr := fh_ptr sl + ucast cnt\<rparr>) s1)))
      else read_finish rv (read_blocks bk f fs lbs bs cnt [] s))"

definition fs_ext2_read ::
  "kconsts \<Rightarrow> 'd backend \<Rightarrow> int \<Rightarrow> u32 \<Rightarrow> 'd state \<Rightarrow> (u32 \<times> u8 list, 'd state) outcome option" where
  "fs_ext2_read K bk h cnt0 s0 =
     (if ext2_mutex s0 then Some (Blocks s0)
      else
        let s = mutex_lock s0; fd = h - 1 in
        if fd < 0 then Some (Undefined_behaviour s)
        else if fd \<ge> MAX_EXT2_FILES \<or> fh_inode_num (fh s (nat fd)) = 0
                \<or> fh_mode (fh s (nat fd)) AND O_DIR K \<noteq> 0
        then Some (Returns (- 1, []) (set_errno EINVAL (mutex_unlock s)))
        else read_locked bk (nat fd) cnt0 s)"

subsection \<open>readdir\<close>



subsection \<open>Paths and the busy check\<close>

text \<open>
  \<open>strrchr(cp, '/')\<close> followed by \<open>*ent++ = 0\<close>: the part before the last slash and
  the part after it, or \<open>None\<close> when there is no slash.
\<close>

definition strrchr_split :: "string \<Rightarrow> (string \<times> string) option" where
  "strrchr_split cp =
     (if CHR ''/'' \<in> set cp
      then Some (rev (tl (dropWhile (\<lambda>c. c \<noteq> CHR ''/'') (rev cp))),
                 rev (takeWhile (\<lambda>c. c \<noteq> CHR ''/'') (rev cp)))
      else None)"

text \<open>The loop over the table that looks for an open file with a given inode number.\<close>

definition fh_busy :: "'d state \<Rightarrow> u32 \<Rightarrow> bool" where
  "fh_busy s num = list_ex (\<lambda>fd. fh_inode_num (fh s fd) = num) [0..<nat MAX_EXT2_FILES]"

definition is_dir :: "kconsts \<Rightarrow> ext2_inode \<Rightarrow> bool" where
  "is_dir K ino \<longleftrightarrow> i_mode ino AND 0xF000 = EXT2_S_IFDIR K"

definition failed :: "errno \<Rightarrow> 'd state \<Rightarrow> (int, 'd state) outcome" where
  "failed e s = Returns (- 1) (set_errno e s)"

subsection \<open>unlink\<close>

text \<open>A path argument is \<open>None\<close> for a null pointer. The mutators return an \<open>int\<close>.\<close>

definition fs_ext2_unlink ::
  "kconsts \<Rightarrow> 'd backend \<Rightarrow> fs_ext2_fs \<Rightarrow> string option \<Rightarrow> 'd state \<Rightarrow> (int, 'd state) outcome" where
  "fs_ext2_unlink K bk mnt fn0 s0 =
     (case fn0 of
        None \<Rightarrow> failed ENOENT s0
      | Some fn \<Rightarrow>
          if fn = [] then failed EPERM s0
          else if mount_flags mnt AND FS_EXT2_MOUNT_READWRITE K = 0 then failed EROFS s0
          else if \<not> bk_strdup bk fn (world s0) then failed ENOMEM s0
          else
            (case strrchr_split fn of
               None \<Rightarrow> failed EPERM s0
             | Some (cp, ent) \<Rightarrow>
                 if ext2_mutex s0 then Blocks s0
                 else
                   (case ext2_inode_by_path bk (mnt_fs mnt) cp (mutex_lock s0) of
                      (Inl irv, s) \<Rightarrow> failed irv (mutex_unlock s)
                    | (Inr (pinode, inode_num), s) \<Rightarrow>
                        if \<not> is_dir K (heap (world s) pinode)
                        then failed ENOTDIR (mutex_unlock (ext2_inode_put bk pinode s))
                        else
                          (case ext2_dir_entry bk (mnt_fs mnt) pinode ent s of
                             (None, s) \<Rightarrow> failed ENOENT (mutex_unlock (ext2_inode_put bk pinode s))
                           | (Some dent, s) \<Rightarrow>
                               (case ext2_inode_get bk (mnt_fs mnt) (de_inode dent) s of
                                  (None, s) \<Rightarrow> failed EIO (mutex_unlock (ext2_inode_put bk pinode s))
                                | (Some inode, s) \<Rightarrow>
                                    if is_dir K (heap (world s) inode)
                                    then failed EPERM
                                           (mutex_unlock (ext2_inode_put bk inode (ext2_inode_put bk pinode s)))
                                    else if fh_busy s (de_inode dent)
                                    then failed EBUSY
                                           (mutex_unlock (ext2_inode_put bk inode (ext2_inode_put bk pinode s)))
                                    else
                                      (case ext2_dir_rm_entry bk (mnt_fs mnt) pinode ent s of
                                         (Inl irv, s) \<Rightarrow>
                                           failed irv
                                             (mutex_unlock (ext2_inode_put bk inode (ext2_inode_put bk pinode s)))
                                       | (Inr in_num, s) \<Rightarrow>
                                           let now = bk_time bk (world s);
                                               s = inode_store pinode (\<lambda>i. i\<lparr>i_ctime := now, i_mtime := now\<rparr>) s;
                                               s = ext2_inode_put bk pinode s;
                                               s = ext2_inode_put bk inode s
                                           in
                                           (case ext2_inode_deref bk (mnt_fs mnt) in_num False s of
                                              (Some irv, s) \<Rightarrow> failed irv (mutex_unlock s)
                                            | (None, s) \<Rightarrow> Returns 0 (mutex_unlock s))))))))"

subsection \<open>rmdir\<close>

definition fs_ext2_rmdir ::
  "kconsts \<Rightarrow> 'd backend \<Rightarrow> fs_ext2_fs \<Rightarrow> string option \<Rightarrow> 'd state \<Rightarrow> (int, 'd state) outcome" where
  "fs_ext2_rmdir K bk mnt fn0 s0 =
     (case fn0 of
        None \<Rightarrow> failed ENOENT s0
      | Some fn \<Rightarrow>
          if fn = [] \<or> fn = ''/'' then failed EPERM s0
          else if mount_flags mnt AND FS_EXT2_MOUNT_READWRITE K = 0 then failed EROFS s0
          else if \<not> bk_strdup bk fn (world s0) then failed ENOMEM s0
          else
            (case strrchr_split fn of
               None \<Rightarrow> failed EPERM s0
             | Some (cp, ent) \<Rightarrow>
                 if ext2_mutex s0 then Blocks s0
                 else
                   (case ext2_inode_by_path bk (mnt_fs mnt) cp (mutex_lock s0) of
                      (Inl irv, s) \<Rightarrow> failed irv (mutex_unlock s)
                    | (Inr (pinode, inode_num), s) \<Rightarrow>
                        if \<not> is_dir K (heap (world s) pinode)
                        then failed ENOTDIR (mutex_unlock (ext2_inode_put bk pinode s))
                        else
                          (case ext2_dir_entry bk (mnt_fs mnt) pinode ent s of
                             (None, s) \<Rightarrow> failed ENOENT (mutex_unlock (ext2_inode_put bk pinode s))
                           | (Some dent, s) \<Rightarrow>
                               (case ext2_inode_get bk (mnt_fs mnt) (de_inode dent) s of
                                  (None, s) \<Rightarrow> failed EIO (mutex_unlock (ext2_inode_put bk pinode s))
                                | (Some inode, s) \<Rightarrow>
                                    if \<not> is_dir K (heap (world s) inode)
                                    then failed EPERM
                                           (mutex_unlock (ext2_inode_put bk inode (ext2_inode_put bk pinode s)))
                                    else if fh_busy s (de_inode dent)
                                    then failed EBUSY
                                           (mutex_unlock (ext2_inode_put bk inode (ext2_inode_put bk pinode s)))
                                    else
                                      (case ext2_dir_rm_entry bk (mnt_fs mnt) pinode ent s of
                                         (Inl irv, s) \<Rightarrow>
                                           failed irv
                                             (mutex_unlock (ext2_inode_put bk inode (ext2_inode_put bk pinode s)))
                                       | (Inr in_num, s) \<Rightarrow>
                                           (case ext2_inode_deref bk (mnt_fs mnt) in_num True
                                                   (ext2_inode_put bk inode s) of
                                              (Some irv, s) \<Rightarrow> failed irv (mutex_unlock s)
                                            | (None, s) \<Rightarrow>
                                                let now = bk_time bk (world s);
                                                    s = inode_store pinode
                                                          (\<lambda>i. i\<lparr>i_ctime := now, i_mtime := now,
                                                                  i_links_count := i_links_count i - 1\<rparr>) s;
                                                    s = ext2_inode_mark_dirty bk pinode s;
                                                    s = ext2_inode_put bk pinode s
                                                in Returns 0 (mutex_unlock s))))))))"

subsection \<open>rename\<close>

text \<open>
  \<open>int_rename\<close> returns 0 (\<open>None\<close>) or a negative error number (\<open>Some e\<close> for
  \<open>-e\<close>). Its last part, from \<open>ext2_dir_add_entry\<close> on: link the moved object into
  the destination directory, unlink it from the source directory and, for a directory, redirect
  its \<open>..\<close> entry. When the redirection fails, \<open>dpinode\<close> is not put.
\<close>

definition int_rename_link ::
  "'d backend \<Rightarrow> nat \<Rightarrow> string \<Rightarrow> string \<Rightarrow> iptr \<Rightarrow> iptr \<Rightarrow> u32 \<Rightarrow> bool \<Rightarrow> iptr \<Rightarrow> u32
     \<Rightarrow> 'd state \<Rightarrow> errno option \<times> 'd state" where
  "int_rename_link bk fs fn1 ent pinode finode finode_num isfile dpinode dpinode_num s0 =
     (case ext2_dir_add_entry bk fs dpinode ent finode_num finode s0 of
        (Some e, s) \<Rightarrow> (Some EIO, ext2_inode_put bk dpinode s)
      | (None, s) \<Rightarrow>
          (case ext2_dir_rm_entry bk fs pinode fn1 s of
             (Inl irv, s) \<Rightarrow> (Some EIO, ext2_inode_put bk dpinode s)
           | (Inr tmp, s) \<Rightarrow>
               if \<not> isfile
               then
                 (case ext2_dir_redir_entry bk fs finode ''..'' dpinode_num s of
                    (Some e, s) \<Rightarrow> (Some EIO, s)
                  | (None, s) \<Rightarrow>
                      let s = inode_store pinode (\<lambda>i. i\<lparr>i_links_count := i_links_count i - 1\<rparr>) s;
                          s = inode_store dpinode (\<lambda>i. i\<lparr>i_links_count := i_links_count i + 1\<rparr>) s;
                          s = ext2_inode_mark_dirty bk dpinode s;
                          s = ext2_inode_mark_dirty bk pinode s
                      in (None, ext2_inode_put bk dpinode s))
               else (None, ext2_inode_put bk dpinode s)))"

definition int_rename ::
  "kconsts \<Rightarrow> 'd backend \<Rightarrow> fs_ext2_fs \<Rightarrow> string \<Rightarrow> string \<Rightarrow> iptr \<Rightarrow> iptr \<Rightarrow> u32 \<Rightarrow> bool
     \<Rightarrow> 'd state \<Rightarrow> errno option \<times> 'd state" where
  "int_rename K bk mnt fn1 fn2 pinode finode finode_num isfile s0 =
     (if \<not> bk_strdup bk fn2 (world s0) then (Some ENOMEM, s0)
      else
        case strrchr_split fn2 of
          None \<Rightarrow> (Some EINVAL, s0)
        | Some (cp, ent) \<Rightarrow>
            (case ext2_inode_by_path bk (mnt_fs mnt) cp s0 of
               (Inl irv, s) \<Rightarrow> (Some irv, s)
             | (Inr (dpinode, dpinode_num), s) \<Rightarrow>
                 if \<not> is_dir K (heap (world s) dpinode)
                 then (Some ENOTDIR, ext2_inode_put bk dpinode s)
                 else
                   (case ext2_dir_entry bk (mnt_fs mnt) dpinode ent s of
                      (None, s) \<Rightarrow>
                        int_rename_link bk (mnt_fs mnt) fn1 ent pinode finode finode_num isfile
                          dpinode dpinode_num s
                    | (Some dent, s) \<Rightarrow>
                        (case ext2_inode_get bk (mnt_fs mnt) (de_inode dent) s of
                           (None, s) \<Rightarrow> (Some EIO, ext2_inode_put bk dpinode s)
                         | (Some dinode, s) \<Rightarrow>
                             let isdir = is_dir K (heap (world s) dinode) in
                             if isdir \<and> isfile
                             then (Some EISDIR, ext2_inode_put bk dpinode (ext2_inode_put bk dinode s))
                             else
                               (case (if isdir then ext2_dir_is_empty bk (mnt_fs mnt) dinode s
                                      else (1, s)) of
                                  (irv, s) \<Rightarrow>
                                    if isdir \<and> irv = 0
                                    then (Some ENOTEMPTY,
                                          ext2_inode_put bk dpinode (ext2_inode_put bk dinode s))
                                    else if isdir \<and> irv = - 1
                                    then (Some EIO,
                                          ext2_inode_put bk dpinode (ext2_inode_put bk dinode s))
                                    else if fh_busy s (de_inode dent)
                                    then (Some EBUSY,
                                          ext2_inode_put bk dpinode (ext2_inode_put bk dinode s))
                                    else
                                      (case ext2_dir_rm_entry bk (mnt_fs mnt) dpinode ent s of
                                         (Inl e, s) \<Rightarrow>
                                           (Some EIO,
                                            ext2_inode_put bk dinode (ext2_inode_put bk dpinode s))
                                       | (Inr tmp, s) \<Rightarrow>
                                           (case ext2_inode_deref bk (mnt_fs mnt) tmp isdir
                                                   (ext2_inode_put bk dinode s) of
                                              (Some e, s) \<Rightarrow> (Some EIO, ext2_inode_put bk dpinode s)
                                            | (None, s) \<Rightarrow>
                                                int_rename_link bk (mnt_fs mnt) fn1 ent pinode finode
                                                  finode_num isfile dpinode dpinode_num
                                                  (if isdir
                                                   then ext2_inode_mark_dirty bk dpinode
                                                          (inode_store dpinode
                                                             (\<lambda>i. i\<lparr>i_links_count := i_links_count i - 1\<rparr>) s)
                                                   else s))))))))"

text \<open>
  rename. When the inode of the source entry cannot be fetched, the function unlocks and
  returns without putting \<open>pinode\<close>. After \<open>int_rename\<close> the last statement before
  \<open>return irv\<close> is \<open>mutex_lock(&ext2_mutex)\<close>.
\<close>

definition fs_ext2_rename ::
  "kconsts \<Rightarrow> 'd backend \<Rightarrow> fs_ext2_fs \<Rightarrow> string option \<Rightarrow> string option \<Rightarrow> 'd state
     \<Rightarrow> (int, 'd state) outcome" where
  "fs_ext2_rename K bk mnt fn1' fn2' s0 =
     (case (fn1', fn2') of
        (None, _) \<Rightarrow> failed ENOENT s0
      | (Some fn1, None) \<Rightarrow> failed ENOENT s0
      | (Some fn1, Some fn2) \<Rightarrow>
          if fn1 = [] then failed EINVAL s0
          else if mount_flags mnt AND FS_EXT2_MOUNT_READWRITE K = 0 then failed EROFS s0
          else if \<not> bk_strdup bk fn1 (world s0) then failed ENOMEM s0
          else
            (case strrchr_split fn1 of
               None \<Rightarrow> failed EINVAL s0
             | Some (cp, ent) \<Rightarrow>
                 if ext2_mutex s0 then Blocks s0
                 else
                   (case ext2_inode_by_path bk (mnt_fs mnt) cp (mutex_lock s0) of
                      (Inl irv, s) \<Rightarrow> failed irv (mutex_unlock s)
                    | (Inr (pinode, inode_num), s) \<Rightarrow>
                        if \<not> is_dir K (heap (world s) pinode)
                        then failed ENOTDIR (mutex_unlock (ext2_inode_put bk pinode s))
                        else
                          (case ext2_dir_entry bk (mnt_fs mnt) pinode ent s of
                             (None, s) \<Rightarrow> failed ENOENT (mutex_unlock (ext2_inode_put bk pinode s))
                           | (Some dent, s) \<Rightarrow>
                               (case ext2_inode_get bk (mnt_fs mnt) (de_inode dent) s of
                                  (None, s) \<Rightarrow> failed EIO (mutex_unlock s)
                                | (Some inode, s) \<Rightarrow>
                                    (case int_rename K bk mnt ent fn2 pinode inode (de_inode dent)
                                            (\<not> is_dir K (heap (world s) inode)) s of
                                       (r, s) \<Rightarrow>
                                         let s = (case r of None \<Rightarrow> s | Some e \<Rightarrow> set_errno e s);
                                             irv = (case r of None \<Rightarrow> 0 | Some e \<Rightarrow> - 1);
                                             s = ext2_inode_put bk pinode s;
                                             s = ext2_inode_put bk inode s
                                         in
                                         if ext2_mutex s then Blocks s
                                         else Returns irv (mutex_lock s)))))))"

subsection \<open>mkdir\<close>

text \<open>
  When \<open>ext2_dir_create_empty\<close> or \<open>ext2_dir_add_entry\<close> fails, the new inode is
  dereferenced and the parent is put; \<open>ninode\<close> itself is not put.
\<close>

definition fs_ext2_mkdir ::
  "kconsts \<Rightarrow> 'd backend \<Rightarrow> fs_ext2_fs \<Rightarrow> string option \<Rightarrow> 'd state \<Rightarrow> (int, 'd state) outcome" where
  "fs_ext2_mkdir K bk mnt fn0 s0 =
     (case fn0 of
        None \<Rightarrow> failed ENOENT s0
      | Some fn \<Rightarrow>
          if mount_flags mnt AND FS_EXT2_MOUNT_READWRITE K = 0 then failed EROFS s0
          else if fn = [] then failed EEXIST s0
          else if \<not> bk_strdup bk fn (world s0) then failed ENOMEM s0
          else
            (case strrchr_split fn of
               None \<Rightarrow> failed ENOENT s0
             | Some (cp, nd) \<Rightarrow>
                 if ext2_mutex s0 then Blocks s0
                 else
                   (case ext2_inode_by_path bk (mnt_fs mnt) cp (mutex_lock s0) of
                      (Inl irv, s) \<Rightarrow> failed irv (mutex_unlock s)
                    | (Inr (inode, inode_num), s) \<Rightarrow>
                        (case ext2_dir_entry bk (mnt_fs mnt) inode nd s of
                           (Some dent, s) \<Rightarrow> failed EEXIST (mutex_unlock (ext2_inode_put bk inode s))
                         | (None, s) \<Rightarrow>
                             (case ext2_inode_alloc bk (mnt_fs mnt) inode_num s of
                                (Inl irv, s) \<Rightarrow> failed irv (mutex_unlock (ext2_inode_put bk inode s))
                              | (Inr (ninode, ninode_num), s) \<Rightarrow>
                                  let now = bk_time bk (world s);
                                      parent = heap (world s) inode;
                                      s = inode_store ninode
                                            (\<lambda>i. i\<lparr>i_mode := i_mode parent, i_uid := i_uid parent,
                                                    i_atime := now, i_ctime := now, i_mtime := now,
                                                    i_gid := i_gid parent,
                                                    l_i_uid_high := l_i_uid_high parent,
                                                    l_i_gid_high := l_i_gid_high parent\<rparr>) s
                                  in
                                  (case ext2_dir_create_empty bk (mnt_fs mnt) ninode ninode_num inode_num s of
                                     (Some irv, s) \<Rightarrow>
                                       (case ext2_inode_deref bk (mnt_fs mnt) ninode_num True
                                               (ext2_inode_put bk inode s) of
                                          (r, s) \<Rightarrow> failed irv (mutex_unlock s))
                                   | (None, s) \<Rightarrow>
                                       (case ext2_dir_add_entry bk (mnt_fs mnt) inode nd ninode_num ninode s of
                                          (Some irv, s) \<Rightarrow>
                                            (case ext2_inode_deref bk (mnt_fs mnt) ninode_num True
                                                    (ext2_inode_put bk inode s) of
                                               (r, s) \<Rightarrow> failed irv (mutex_unlock s))
                                        | (None, s) \<Rightarrow>
                                            let s = inode_store inode
                                                      (\<lambda>i. i\<lparr>i_links_count := i_links_count i + 1\<rparr>) s;
                                                s = ext2_inode_mark_dirty bk inode s;
                                                s = ext2_inode_put bk ninode s;
                                                s = ext2_inode_put bk inode s
                                            in Returns 0 (mutex_unlock s))))))))"

subsection \<open>init, mount and unmount\<close>

definition fh_zero :: fh_slot where
  "fh_zero = \<lparr>fh_inode_num = 0, fh_mode = 0, fh_ptr = 0,
     fh_dent = \<lparr>dt_size = 0, dt_name = [], dt_time = 0, dt_attr = 0\<rparr>,
     fh_inode = 0, fh_fs = \<lparr>mnt_vfsh = 0, mnt_fs = 0, mount_flags = 0\<rparr>\<rparr>"

definition fs_ext2_init :: "'d state \<Rightarrow> (int, 'd state) outcome" where
  "fs_ext2_init s =
     (if initted s then Returns 0 s
      else Returns 0 (s\<lparr>ext2_fses := [], ext2_mutex := False, initted := True, fh := (\<lambda>fd. fh_zero)\<rparr>))"

text \<open>
  mount. \<open>mounts\<close> and \<open>handlers\<close> are the allocated \<open>fs_ext2_fs_t\<close> and
  \<open>vfs_handler_t\<close> objects by address (a handler is its path name and its \<open>privdata\<close>);
  \<open>free\<close> removes an object. \<open>ext2_fses\<close> holds the addresses of the mounts in the list.
  \<open>mnt->vfsh\<close> is not set before the handler is allocated; the model writes 0 there.
\<close>

definition fs_ext2_mount ::
  "kconsts \<Rightarrow> 'd backend \<Rightarrow> string \<Rightarrow> kos_blockdev \<Rightarrow> u32 \<Rightarrow> 'd state \<Rightarrow> (int, 'd state) outcome" where
  "fs_ext2_mount K bk mp dev flags s0 =
     (if \<not> initted s0 then Returns (- 1) s0
      else if flags AND FS_EXT2_MOUNT_READWRITE K \<noteq> 0 \<and> \<not> write_blocks dev then Returns (- 1) s0
      else if ext2_mutex s0 then Blocks s0
      else
        let s = mutex_lock s0 in
        case bk_fs_init bk dev flags (world s) of
          (None, w) \<Rightarrow> Returns (- 1) (mutex_unlock (s\<lparr>world := w\<rparr>))
        | (Some fs, w) \<Rightarrow>
            (case bk_malloc bk w of
               (None, w) \<Rightarrow> Returns (- 1) (mutex_unlock (s\<lparr>world := bk_fs_shutdown bk fs w\<rparr>))
             | (Some mnt, w) \<Rightarrow>
                 let s = s\<lparr>mounts := (mounts s)(mnt \<mapsto> \<lparr>mnt_vfsh = 0, mnt_fs = fs, mount_flags = flags\<rparr>)\<rparr>
                 in
                 (case bk_malloc bk w of
                    (None, w) \<Rightarrow>
                      Returns (- 1)
                        (mutex_unlock (s\<lparr>mounts := (mounts s)(mnt := None),
                                         world := bk_fs_shutdown bk fs w\<rparr>))
                  | (Some vfsh, w) \<Rightarrow>
                      let s = s\<lparr>handlers := (handlers s)(vfsh \<mapsto> (mp, mnt)),
                                mounts := (mounts s)(mnt \<mapsto> \<lparr>mnt_vfsh = vfsh, mnt_fs = fs,
                                                               mount_flags = flags\<rparr>)\<rparr>;
                          s = s\<lparr>ext2_fses := mnt # ext2_fses s\<rparr>
                      in
                      (case bk_nmmgr_handler_add bk vfsh mp w of
                         (rc, w) \<Rightarrow>
                           if rc \<noteq> 0
                           then Returns (- 1)
                                  (mutex_unlock (s\<lparr>handlers := (handlers s)(vfsh := None),
                                                   mounts := (mounts s)(mnt := None),
                                                   world := bk_fs_shutdown bk fs w\<rparr>))
                           else Returns 0 (mutex_unlock (s\<lparr>world := w\<rparr>))))))"

text \<open>
  unmount walks the list and compares \<open>i->vfsh->nmmgr.pathname\<close> with the path. An entry
  of the list whose mount or handler has been freed cannot be read: the model stops there.
\<close>

fun find_mount ::
  "(nat \<Rightarrow> fs_ext2_fs option) \<Rightarrow> (nat \<Rightarrow> (string \<times> nat) option) \<Rightarrow> string \<Rightarrow> nat list
     \<Rightarrow> (nat option) option" where
  "find_mount ms hs mp [] = Some None"
| "find_mount ms hs mp (i # rest) =
     (case ms i of
        None \<Rightarrow> None
      | Some m \<Rightarrow>
          (case hs (mnt_vfsh m) of
             None \<Rightarrow> None
           | Some (pathname, privdata) \<Rightarrow>
               if mp = pathname then Some (Some i) else find_mount ms hs mp rest))"

definition fs_ext2_unmount ::
  "'d backend \<Rightarrow> string \<Rightarrow> 'd state \<Rightarrow> (int, 'd state) outcome" where
  "fs_ext2_unmount bk mp s0 =
     (if ext2_mutex s0 then Blocks s0
      else
        let s = mutex_lock s0 in
        case find_mount (mounts s) (handlers s) mp (ext2_fses s) of
          None \<Rightarrow> Undefined_behaviour s
        | Some None \<Rightarrow> Returns (- 1) (mutex_unlock (set_errno ENOENT s))
        | Some (Some i) \<Rightarrow>
            let vfsh = (case mounts s i of Some m \<Rightarrow> mnt_vfsh m | None \<Rightarrow> 0);
                s = s\<lparr>ext2_fses := remove1 i (ext2_fses s)\<rparr>;
                s = s\<lparr>world := bk_nmmgr_handler_remove bk vfsh (world s)\<rparr>;
                s = s\<lparr>handlers := (handlers s)(vfsh := None), mounts := (mounts s)(i := None)\<rparr>
            in Returns 0 (mutex_unlock s))"

section \<open>A small filesystem for concrete runs\<close>

text \<open>
  A backend with one directory, the root (inode 2), that holds the file \<open>a\<close> (inode 12,
  100 bytes) and the directory \<open>d\<close> (inode 13). The address of an inode object is its
  number. The root's data block starts with a deleted entry, followed by the entries of
  \<open>a\<close> and \<open>d\<close>. Blocks are 1024 bytes long.
\<close>

record demo_disk =
  entries :: "(string \<times> u32) list"
  next_addr :: nat

definition mk_inode :: "u16 \<Rightarrow> u32 \<Rightarrow> u16 \<Rightarrow> ext2_inode" where
  "mk_inode m sz links = \<lparr>i_mode = m, i_uid = 0, i_size = sz, i_atime = 0, i_ctime = 0,
     i_mtime = 0, i_gid = 0, i_links_count = links, l_i_uid_high = 0, l_i_gid_high = 0\<rparr>"

definition demo_heap :: "iptr \<Rightarrow> ext2_inode" where
  "demo_heap p =
     (if p = 2 then mk_inode 0x41ED 1024 3
      else if p = 12 then mk_inode 0x81A4 100 1
      else if p = 13 then mk_inode 0x41ED 1024 2
      else mk_inode 0 0 0)"

definition demo_world :: "demo_disk world" where
  "demo_world = \<lparr>heap = demo_heap, disk = \<lparr>entries = [(''a'', 12), (''d'', 13)], next_addr = 100\<rparr>\<rparr>"

definition demo_dirent_at :: "u8 list \<Rightarrow> nat \<Rightarrow> ext2_dirent" where
  "demo_dirent_at block off =
     (if off = 0 then \<lparr>de_inode = 0, rec_len = 12, name_len = 1, de_name = ''x''\<rparr>
      else if off = 12 then \<lparr>de_inode = 12, rec_len = 12, name_len = 1, de_name = ''a''\<rparr>
      else \<lparr>de_inode = 13, rec_len = 1000, name_len = 1, de_name = ''d''\<rparr>)"

definition demo_bk :: "demo_disk backend" where
  "demo_bk = \<lparr>
     bk_inode_by_path = (\<lambda>fs path w.
        if path = [] then (Inr (2, 2), w)
        else (case map_of (entries (disk w)) (tl path) of
                None \<Rightarrow> (Inl ENOENT, w)
              | Some n \<Rightarrow> (Inr (unat n, n), w))),
     bk_inode_get = (\<lambda>fs n w. (Some (unat n), w)),
     bk_inode_put = (\<lambda>p w. w),
     bk_inode_alloc = (\<lambda>fs parent w. (Inr (14, 14), w)),
     bk_inode_deref = (\<lambda>fs n isdir w. (None, w)),
     bk_inode_mark_dirty = (\<lambda>p w. w),
     bk_dir_entry = (\<lambda>fs dir nm w.
        (if dir = 2
         then (case map_of (entries (disk w)) nm of
                 None \<Rightarrow> None
               | Some n \<Rightarrow> Some \<lparr>de_inode = n, rec_len = 12, name_len = 1, de_name = nm\<rparr>)
         else None, w)),
     bk_dir_is_empty = (\<lambda>fs dir w. (1, w)),
     bk_dir_rm_entry = (\<lambda>fs dir nm w.
        (case map_of (entries (disk w)) nm of
           None \<Rightarrow> (Inl ENOENT, w)
         | Some n \<Rightarrow>
             (Inr n, w\<lparr>disk := (disk w)\<lparr>entries := filter (\<lambda>e. fst e \<noteq> nm) (entries (disk w))\<rparr>\<rparr>))),
     bk_dir_add_entry = (\<lambda>fs dir nm n ino w.
        (None, w\<lparr>disk := (disk w)\<lparr>entries := entries (disk w) @ [(nm, n)]\<rparr>\<rparr>)),
     bk_dir_redir_entry = (\<lambda>fs dir nm n w. (None, w)),
     bk_dir_create_empty = (\<lambda>fs ino n parent w. (None, w)),
     bk_inode_read_block = (\<lambda>fs ino blk w. (Inr (replicate 1024 0x41), w)),
     bk_block_size = (\<lambda>fs w. 1024),
     bk_log_block_size = (\<lambda>fs w. 10),
     bk_dirent_at = demo_dirent_at,
     bk_strdup = (\<lambda>str w. True),
     bk_time = (\<lambda>w. 1000),
     bk_fs_init = (\<lambda>dev flags w. (Some 1, w)),
     bk_fs_shutdown = (\<lambda>fs w. w),
     bk_malloc = (\<lambda>w. (Some (next_addr (disk w)),
                          w\<lparr>disk := (disk w)\<lparr>next_addr := next_addr (disk w) + 1\<rparr>\<rparr>)),
     bk_nmmgr_handler_add = (\<lambda>vfsh mp w. (0, w)),
     bk_nmmgr_handler_remove = (\<lambda>vfsh w. w)\<rparr>"

definition demo_mnt :: fs_ext2_fs where
  "demo_mnt = \<lparr>mnt_vfsh = 0, mnt_fs = 1, mount_flags = 1\<rparr>"

text \<open>The state after \<open>fs_ext2_init\<close>, and the state after the file \<open>/a\<close> has been opened
  with \<open>O_RDONLY | O_APPEND\<close> (mode 8): the handle is 1.\<close>

definition demo_boot :: "demo_disk state" where
  "demo_boot = \<lparr>initted = False, ext2_mutex = False, fh = (\<lambda>fd. fh_zero), ext2_fses = [],
     mounts = (\<lambda>a. None), handlers = (\<lambda>a. None), errno = E_unset, world = demo_world,
     trace = []\<rparr>"

definition demo_state :: "demo_disk state" where
  "demo_state = out_state (fs_ext2_init demo_boot)"

definition demo_file_open :: "demo_disk state" where
  "demo_file_open = out_state (fs_ext2_open kos_consts demo_bk demo_mnt ''/a'' 8 demo_state)"

section \<open>Notions used in the statements\<close>

definition open_file :: "kconsts \<Rightarrow> 'd state \<Rightarrow> int \<Rightarrow> bool" where
  "open_file K s h \<longleftrightarrow>
     1 \<le> h \<and> h \<le> MAX_EXT2_FILES \<and> fh_inode_num (fh s (nat (h - 1))) \<noteq> 0
     \<and> fh_mode (fh s (nat (h - 1))) AND O_DIR K = 0"

definition seek_base :: "int \<Rightarrow> u64 \<Rightarrow> u32 \<Rightarrow> int" where
  "seek_base whence p sz =
     (if whence = SEEK_SET then 0 else if whence = SEEK_CUR then uint p else uint sz)"

definition seek_wrap :: "int \<Rightarrow> int" where
  "seek_wrap whence = (if whence = SEEK_END then 2 ^ 32 else 2 ^ 64)"

definition seek_new_ptr_of :: "int \<Rightarrow> u64 \<Rightarrow> u32 \<Rightarrow> u32 \<Rightarrow> u64" where
  "seek_new_ptr_of whence p sz offset =
     (if whence = SEEK_SET then scast offset
      else if whence = SEEK_CUR then p + scast offset
      else ucast (sz + offset))"

definition clamp_ptr :: "u64 \<Rightarrow> u32 \<Rightarrow> u64" where
  "clamp_ptr p sz = (if p > ucast sz then ucast sz else p)"

definition demo_slot :: fh_slot where
  "demo_slot = fh_zero\<lparr>fh_inode_num := 12, fh_mode := 8, fh_inode := 12, fh_fs := demo_mnt\<rparr>"

definition demo_bk_no_nmmgr :: "demo_disk backend" where
  "demo_bk_no_nmmgr = demo_bk\<lparr>bk_nmmgr_handler_add := (\<lambda>vfsh mp w. (- 1, w))\<rparr>"

definition demo_bk_no_get :: "demo_disk backend" where
  "demo_bk_no_get = demo_bk\<lparr>bk_inode_get := (\<lambda>fs n w. (None, w))\<rparr>"

definition demo_dev :: kos_blockdev where
  "demo_dev = \<lparr>dev_id = 0, write_blocks = True\<rparr>"

text \<open>The state after \<open>/a\<close> has been opened with \<open>O_RDONLY\<close>, which is 0.\<close>

definition demo_rdonly_open :: "demo_disk state" where
  "demo_rdonly_open = out_state (fs_ext2_open kos_consts demo_bk demo_mnt ''/a'' 0 demo_state)"

declare read_blocks.simps [code]


definition demo_bk_nonempty :: "demo_disk backend" where
  "demo_bk_nonempty = demo_bk\<lparr>bk_dir_is_empty := (\<lambda>fs dir w. (0, w))\<rparr>"










section \<open>Proofs\<close>

subsection \<open>Words, the mutex and the table\<close>

lemma uint_scast64: "uint (scast (x :: u32) :: u64) = sint x mod 2 ^ 64"
  unfolding scast_eq by (rule uint_word_of_int_eq[THEN trans]) (simp add: take_bit_eq_mod)

lemma uint_ucast64: "uint (ucast (x :: u32) :: u64) = uint x"
  by (simp add: uint_up_ucast is_up)

lemma seek_check_bounds_eq:
  "seek_check_bounds fd s1 =
     Returns (ucast (if fh_ptr (fh s1 fd) > ucast (i_size (fh_inode_obj s1 fd))
                     then ucast (i_size (fh_inode_obj s1 fd)) else fh_ptr (fh s1 fd)))
       (mutex_unlock (fh_modify fd (\<lambda>sl. sl\<lparr>fh_ptr :=
           (if fh_ptr (fh s1 fd) > ucast (i_size (fh_inode_obj s1 fd))
                     then ucast (i_size (fh_inode_obj s1 fd)) else fh_ptr (fh s1 fd))\<rparr>) s1))"
  by (auto simp: seek_check_bounds_def Let_def fh_modify_def fh_inode_obj_def)

lemma mutex_lock_proj [simp]:
  "initted (mutex_lock s) = initted s"
  "ext2_mutex (mutex_lock s)"
  "fh (mutex_lock s) = fh s"
  "ext2_fses (mutex_lock s) = ext2_fses s"
  "mounts (mutex_lock s) = mounts s"
  "handlers (mutex_lock s) = handlers s"
  "errno (mutex_lock s) = errno s"
  "world (mutex_lock s) = world s"
  "trace (mutex_lock s) = trace s"
  by (simp_all add: mutex_lock_def)

lemma mutex_unlock_proj [simp]:
  "initted (mutex_unlock s) = initted s"
  "\<not> ext2_mutex (mutex_unlock s)"
  "fh (mutex_unlock s) = fh s"
  "ext2_fses (mutex_unlock s) = ext2_fses s"
  "mounts (mutex_unlock s) = mounts s"
  "handlers (mutex_unlock s) = handlers s"
  "errno (mutex_unlock s) = errno s"
  "world (mutex_unlock s) = world s"
  "trace (mutex_unlock s) = trace s"
  by (simp_all add: mutex_unlock_def)

lemma set_errno_proj [simp]:
  "initted (set_errno e s) = initted s"
  "ext2_mutex (set_errno e s) = ext2_mutex s"
  "fh (set_errno e s) = fh s"
  "ext2_fses (set_errno e s) = ext2_fses s"
  "mounts (set_errno e s) = mounts s"
  "handlers (set_errno e s) = handlers s"
  "errno (set_errno e s) = e"
  "world (set_errno e s) = world s"
  "trace (set_errno e s) = trace s"
  by (simp_all add: set_errno_def)

lemma fh_modify_proj [simp]:
  "initted (fh_modify fd f s) = initted s"
  "ext2_mutex (fh_modify fd f s) = ext2_mutex s"
  "fh (fh_modify fd f s) = (fh s)(fd := f (fh s fd))"
  "ext2_fses (fh_modify fd f s) = ext2_fses s"
  "mounts (fh_modify fd f s) = mounts s"
  "handlers (fh_modify fd f s) = handlers s"
  "errno (fh_modify fd f s) = errno s"
  "world (fh_modify fd f s) = world s"
  "trace (fh_modify fd f s) = trace s"
  by (simp_all add: fh_modify_def)

lemma called_proj [simp]:
  "initted (called w ev s) = initted s"
  "ext2_mutex (called w ev s) = ext2_mutex s"
  "fh (called w ev s) = fh s"
  "ext2_fses (called w ev s) = ext2_fses s"
  "mounts (called w ev s) = mounts s"
  "handlers (called w ev s) = handlers s"
  "errno (called w ev s) = errno s"
  "world (called w ev s) = w"
  "trace (called w ev s) = trace s @ [ev]"
  by (simp_all add: called_def)

lemma inode_store_proj [simp]:
  "initted (inode_store p f s) = initted s"
  "ext2_mutex (inode_store p f s) = ext2_mutex s"
  "fh (inode_store p f s) = fh s"
  "ext2_fses (inode_store p f s) = ext2_fses s"
  "mounts (inode_store p f s) = mounts s"
  "handlers (inode_store p f s) = handlers s"
  "errno (inode_store p f s) = errno s"
  "world (inode_store p f s) = (world s)\<lparr>heap := (heap (world s))(p := f (heap (world s) p))\<rparr>"
  "trace (inode_store p f s) = trace s"
  by (simp_all add: inode_store_def)

lemma seek_valid:
  assumes "\<not> ext2_mutex s" "open_file K s h"
  shows "fs_ext2_seek K h offset whence s =
     (if whence = SEEK_SET
        then seek_check_bounds (nat (h - 1))
               (fh_modify (nat (h - 1)) (\<lambda>sl. sl\<lparr>fh_ptr := scast offset\<rparr>) (mutex_lock s))
        else if whence = SEEK_CUR
        then seek_check_bounds (nat (h - 1))
               (fh_modify (nat (h - 1)) (\<lambda>sl. sl\<lparr>fh_ptr := fh_ptr sl + scast offset\<rparr>) (mutex_lock s))
        else if whence = SEEK_END
        then seek_check_bounds (nat (h - 1))
               (fh_modify (nat (h - 1))
                  (\<lambda>sl. sl\<lparr>fh_ptr := ucast (i_size (fh_inode_obj (mutex_lock s) (nat (h - 1))) + offset)\<rparr>) (mutex_lock s))
        else Returns (- 1) (mutex_unlock (mutex_lock s)))"
proof -
  from assms(2) have a: "\<not> h - 1 < 0" "\<not> h - 1 \<ge> MAX_EXT2_FILES"
    "fh_inode_num (fh s (nat (h - 1))) \<noteq> 0" "fh_mode (fh s (nat (h - 1))) AND O_DIR K = 0"
    by (simp_all add: open_file_def)
  show ?thesis
    unfolding fs_ext2_seek_def Let_def
    by (simp only: assms(1) a if_False mutex_lock_proj simp_thms)
qed

lemma uint_sint32: "uint (x :: u32) = sint x mod 2 ^ 32"
  by (simp add: uint_sint take_bit_eq_mod)

lemma clamp_uint:
  "uint (if (p :: u64) > ucast (sz :: u32) then ucast sz else p) = min (uint p) (uint sz)"
  by (simp add: word_less_def uint_ucast64 min_def)

lemma seek_new_ptr:
  assumes "whence = SEEK_SET \<or> whence = SEEK_CUR \<or> whence = SEEK_END"
  shows "uint (if whence = SEEK_SET then scast offset
               else if whence = SEEK_CUR then p + scast offset
               else (ucast (sz + offset) :: u64))
         = (seek_base whence p sz + sint (offset :: u32)) mod seek_wrap whence"
proof -
  have e: "(uint sz + uint offset) mod 2 ^ 32 = (uint sz + sint offset) mod 2 ^ 32"
    by (simp add: uint_sint32 mod_add_right_eq)
  have c: "(uint p + sint offset mod 2 ^ 64) mod 2 ^ 64 = (uint p + sint offset) mod 2 ^ 64"
    by (simp add: mod_add_right_eq)
  show ?thesis
    using assms e c
    by (auto simp: seek_base_def seek_wrap_def SEEK_SET_def SEEK_CUR_def SEEK_END_def
        uint_scast64 uint_ucast64 uint_word_ariths)
qed

lemma unlock_lock_fh_update:
  assumes "\<not> ext2_mutex s"
  shows "mutex_unlock (fh_modify fd g (fh_modify fd f (mutex_lock s))) = fh_modify fd (g \<circ> f) s"
  using assms by (cases s) (simp add: mutex_unlock_def mutex_lock_def fh_modify_def)

lemma unlock_lock_id: "\<not> ext2_mutex s \<Longrightarrow> mutex_unlock (mutex_lock s) = s"
  by (cases s) (simp add: mutex_unlock_def mutex_lock_def)

lemma seek_check_bounds_update:
  assumes "\<not> ext2_mutex s"
  shows "seek_check_bounds fd (fh_modify fd (\<lambda>sl. sl\<lparr>fh_ptr := f sl\<rparr>) (mutex_lock s)) =
     Returns (ucast (clamp_ptr (f (fh s fd)) (i_size (fh_inode_obj s fd))))
       (fh_modify fd (\<lambda>sl. sl\<lparr>fh_ptr := clamp_ptr (f (fh s fd)) (i_size (fh_inode_obj s fd))\<rparr>) s)"
  using assms
  by (cases s)
    (simp add: seek_check_bounds_def Let_def fh_modify_def fh_inode_obj_def mutex_lock_def
      mutex_unlock_def clamp_ptr_def)

lemma seek_outcome:
  assumes "\<not> ext2_mutex s" "open_file K s h"
    and "whence = SEEK_SET \<or> whence = SEEK_CUR \<or> whence = SEEK_END"
  shows "fs_ext2_seek K h offset whence s =
     Returns (ucast (clamp_ptr (seek_new_ptr_of whence (fh_ptr (fh s (nat (h - 1))))
                      (i_size (fh_inode_obj s (nat (h - 1)))) offset)
                      (i_size (fh_inode_obj s (nat (h - 1))))))
       (fh_modify (nat (h - 1)) (\<lambda>sl. sl\<lparr>fh_ptr := clamp_ptr (seek_new_ptr_of whence (fh_ptr (fh s (nat (h - 1))))
                      (i_size (fh_inode_obj s (nat (h - 1)))) offset)
                      (i_size (fh_inode_obj s (nat (h - 1))))\<rparr>) s)"
proof -
  have o: "fh_inode_obj (mutex_lock s) fd = fh_inode_obj s fd" for fd
    by (simp add: fh_inode_obj_def)
  consider "whence = SEEK_SET" | "whence \<noteq> SEEK_SET" "whence = SEEK_CUR"
    | "whence \<noteq> SEEK_SET" "whence \<noteq> SEEK_CUR" "whence = SEEK_END"
    using assms(3) by blast
  then show ?thesis
  proof cases
    case 1
    then show ?thesis
      unfolding seek_valid[OF assms(1,2)]
      by (simp add: seek_check_bounds_update[OF assms(1)] seek_new_ptr_of_def)
  next
    case 2
    then show ?thesis
      unfolding seek_valid[OF assms(1,2)]
      by (simp add: seek_check_bounds_update[OF assms(1)] seek_new_ptr_of_def)
  next
    case 3
    then show ?thesis
      unfolding seek_valid[OF assms(1,2)] o
      by (simp add: seek_check_bounds_update[OF assms(1)] seek_new_ptr_of_def)
  qed
qed

lemma seek_other_whence:
  assumes "\<not> ext2_mutex s" "open_file K s h"
    and "whence \<noteq> SEEK_SET" "whence \<noteq> SEEK_CUR" "whence \<noteq> SEEK_END"
  shows "fs_ext2_seek K h offset whence s = Returns (- 1) s"
  unfolding seek_valid[OF assms(1,2)] using assms(3-5) by (simp add: unlock_lock_id[OF assms(1)])

lemma clamp_ptr_uint: "uint (clamp_ptr p sz) = min (uint p) (uint sz)"
  unfolding clamp_ptr_def by (rule clamp_uint)

lemma seek_new_ptr_of_uint:
  "whence = SEEK_SET \<or> whence = SEEK_CUR \<or> whence = SEEK_END \<Longrightarrow>
   uint (seek_new_ptr_of whence p sz offset) = (seek_base whence p sz + sint offset) mod seek_wrap whence"
  unfolding seek_new_ptr_of_def by (rule seek_new_ptr)

lemma ucast_clamped: "uint (ucast (clamp_ptr p sz) :: u32) = uint (clamp_ptr p sz)"
proof -
  have "uint (clamp_ptr p sz) < 2 ^ 32"
    using uint_lt2p[of sz] by (simp add: clamp_ptr_uint min_def)
  then show ?thesis
    by (simp add: unsigned_ucast_eq take_bit_eq_mod)
qed

lemma demo_state_eq:
  "demo_state = \<lparr>initted = True, ext2_mutex = False, fh = (\<lambda>fd. fh_zero), ext2_fses = [],
     mounts = (\<lambda>a. None), handlers = (\<lambda>a. None), errno = E_unset, world = demo_world,
     trace = []\<rparr>"
  by (simp add: demo_state_def fs_ext2_init_def demo_boot_def)

lemma find_free_fd_first: "fh_inode_num (fh s 0) = 0 \<Longrightarrow> find_free_fd s = Some 0"
  by (simp add: find_free_fd_def MAX_EXT2_FILES_def upt_rec)

lemma demo_open_returns:
  "fs_ext2_open kos_consts demo_bk demo_mnt ''/a'' 8 demo_state =
     Returns 1 (demo_state\<lparr>fh := (\<lambda>fd. fh_zero)(0 := demo_slot),
                            trace := [Inode_by_path ''/a'' (Some 12)]\<rparr>)"
  by (simp add: fs_ext2_open_def find_free_fd_first kos_consts_def Let_def mutex_lock_def
      mutex_unlock_def fh_modify_def ext2_inode_by_path_def demo_bk_def called_def demo_state_eq
      demo_world_def demo_mnt_def fh_inode_obj_def demo_heap_def mk_inode_def demo_slot_def
      fh_zero_def)

lemma demo_file_open_eq:
  "demo_file_open = demo_state\<lparr>fh := (\<lambda>fd. fh_zero)(0 := demo_slot),
                            trace := [Inode_by_path ''/a'' (Some 12)]\<rparr>"
  by (simp add: demo_file_open_def demo_open_returns)

lemma demo_file_open_valid:
  "\<not> ext2_mutex demo_file_open" "open_file kos_consts demo_file_open 1"
  "fh_ptr (fh demo_file_open 0) = 0" "i_size (fh_inode_obj demo_file_open 0) = 100"
  by (simp_all add: demo_file_open_eq demo_state_eq open_file_def MAX_EXT2_FILES_def demo_slot_def
      fh_zero_def kos_consts_def fh_inode_obj_def demo_world_def demo_heap_def mk_inode_def)

lemma mod_neg_shift:
  fixes t m :: int
  assumes "- m \<le> t" "t < 0"
  shows "t mod m = t + m"
proof -
  have "(t + m) mod m = t + m"
    using assms by (intro mod_pos_pos_trivial) simp_all
  moreover have "(t + m) mod m = t mod m"
    by simp
  ultimately show ?thesis by simp
qed

subsection \<open>C4: seek\<close>

text \<open>
  C4 (as amended). For an open file (a handle in 1..16 whose slot is in use and was not opened
  with \<open>O_DIR\<close>) and a free mutex, seek with \<open>SEEK_SET\<close>, \<open>SEEK_CUR\<close> or
  \<open>SEEK_END\<close> returns the new cursor and changes nothing but the cursor of that slot. With
  \<open>t\<close> the position asked for (0, the old cursor or the file size, plus the signed offset),
  the new cursor is the smaller of the file size and \<open>t\<close> reduced modulo \<open>2^64\<close>
  (modulo \<open>2^32\<close> for \<open>SEEK_END\<close>). So it never exceeds the size; it is \<open>t\<close> when
  \<open>t\<close> lies in \<open>[0, size]\<close>; it is the size when \<open>t\<close> lies past the end of the file
  (and below the wrap-around); and it is the size, not 0, when \<open>t\<close> is negative. Any other
  value of \<open>whence\<close> makes seek return -1 and leaves the whole state as it was.
\<close>

theorem C4_seek_clamps_to_size:
  assumes "\<not> ext2_mutex s" and "open_file K s h"
  shows
    "(whence = SEEK_SET \<or> whence = SEEK_CUR \<or> whence = SEEK_END \<longrightarrow>
       (\<exists>p'. fs_ext2_seek K h offset whence s
                = Returns (ucast p') (fh_modify (nat (h - 1)) (\<lambda>sl. sl\<lparr>fh_ptr := p'\<rparr>) s)
          \<and> uint (ucast p' :: u32) = uint p'
          \<and> uint p' \<le> uint (i_size (fh_inode_obj s (nat (h - 1))))
          \<and> (let t = seek_base whence (fh_ptr (fh s (nat (h - 1))))
                        (i_size (fh_inode_obj s (nat (h - 1)))) + sint offset;
                  sz = uint (i_size (fh_inode_obj s (nat (h - 1))))
              in uint p' = min (t mod seek_wrap whence) sz
                 \<and> (0 \<le> t \<and> t \<le> sz \<longrightarrow> uint p' = t)
                 \<and> (sz < t \<and> t < seek_wrap whence \<longrightarrow> uint p' = sz)
                 \<and> (t < 0 \<longrightarrow> uint p' = sz))))
     \<and> (whence \<noteq> SEEK_SET \<and> whence \<noteq> SEEK_CUR \<and> whence \<noteq> SEEK_END \<longrightarrow>
          fs_ext2_seek K h offset whence s = Returns (- 1) s)"
proof (intro conjI impI)
  assume w: "whence = SEEK_SET \<or> whence = SEEK_CUR \<or> whence = SEEK_END"
  define p sz where "p = fh_ptr (fh s (nat (h - 1)))" and "sz = i_size (fh_inode_obj s (nat (h - 1)))"
  define p' where "p' = clamp_ptr (seek_new_ptr_of whence p sz offset) sz"
  define t where "t = seek_base whence p sz + sint offset"
  have up: "uint p' = min (t mod seek_wrap whence) (uint sz)"
    by (simp add: p'_def t_def clamp_ptr_uint seek_new_ptr_of_uint[OF w])
  have base: "0 \<le> seek_base whence p sz"
    by (simp add: seek_base_def)
  have lo: "- (2 ^ 31) \<le> sint offset" and hi: "sint offset < 2 ^ 31"
    using sint_ge[of offset] sint_lt[of offset] by simp_all
  have szb: "uint sz < 2 ^ 32"
    using uint_lt2p[of sz] by simp
  have wr: "seek_wrap whence = 2 ^ 32 \<or> seek_wrap whence = 2 ^ 64"
    by (simp add: seek_wrap_def)
  have in_range: "uint p' = t" if "0 \<le> t" "t \<le> uint sz"
  proof -
    have "t < seek_wrap whence" using that szb wr by auto
    then have "t mod seek_wrap whence = t" using that by simp
    then show ?thesis using that by (simp add: up)
  qed
  have above: "uint p' = uint sz" if "uint sz < t" "t < seek_wrap whence"
  proof -
    have "0 \<le> t" using that uint_ge_0[of sz] by linarith
    then have "t mod seek_wrap whence = t" using that by simp
    then show ?thesis using that by (simp add: up)
  qed
  have below: "uint p' = uint sz" if "t < 0"
  proof -
    have tl: "- (2 ^ 31) \<le> t" using base lo by (simp add: t_def)
    have "uint sz < t mod seek_wrap whence"
    proof (cases "whence = SEEK_END")
      case True
      then have "t = uint sz + sint offset" by (simp add: t_def seek_base_def SEEK_END_def SEEK_SET_def SEEK_CUR_def)
      then have s31: "uint sz < 2 ^ 31" using that lo by linarith
      have "t mod 2 ^ 32 = t + 2 ^ 32"
        using that tl by (intro mod_neg_shift) simp_all
      then show ?thesis using True s31 tl by (simp add: seek_wrap_def)
    next
      case False
      have "t mod 2 ^ 64 = t + 2 ^ 64"
        using that tl by (intro mod_neg_shift) simp_all
      then show ?thesis using False szb tl by (simp add: seek_wrap_def)
    qed
    then show ?thesis by (simp add: up)
  qed
  show "\<exists>p'. fs_ext2_seek K h offset whence s
                = Returns (ucast p') (fh_modify (nat (h - 1)) (\<lambda>sl. sl\<lparr>fh_ptr := p'\<rparr>) s)
          \<and> uint (ucast p' :: u32) = uint p'
          \<and> uint p' \<le> uint (i_size (fh_inode_obj s (nat (h - 1))))
          \<and> (let t = seek_base whence (fh_ptr (fh s (nat (h - 1))))
                        (i_size (fh_inode_obj s (nat (h - 1)))) + sint offset;
                  sz = uint (i_size (fh_inode_obj s (nat (h - 1))))
              in uint p' = min (t mod seek_wrap whence) sz
                 \<and> (0 \<le> t \<and> t \<le> sz \<longrightarrow> uint p' = t)
                 \<and> (sz < t \<and> t < seek_wrap whence \<longrightarrow> uint p' = sz)
                 \<and> (t < 0 \<longrightarrow> uint p' = sz))"
    apply (rule exI[of _ p'])
    unfolding Let_def
    apply (intro conjI impI)
    subgoal using seek_outcome[OF assms w, of offset] by (simp add: p'_def p_def sz_def)
    subgoal by (simp add: p'_def ucast_clamped)
    subgoal using up by (simp add: sz_def)
    subgoal using up by (simp add: t_def p_def sz_def)
    subgoal using in_range by (simp add: t_def p_def sz_def)
    subgoal using above by (simp add: t_def p_def sz_def)
    subgoal using below by (simp add: t_def p_def sz_def)
    done
next
  assume "whence \<noteq> SEEK_SET \<and> whence \<noteq> SEEK_CUR \<and> whence \<noteq> SEEK_END"
  then show "fs_ext2_seek K h offset whence s = Returns (- 1) s"
    using seek_other_whence[OF assms] by blast
qed

text \<open>
  The theorem at the file \<open>/a\<close> of the small filesystem (100 bytes, cursor 0): seeking to
  250 from the start gives 100, and the value 7 for \<open>whence\<close> gives -1.
\<close>

theorem C4_seek_witness:
  "\<not> ext2_mutex demo_file_open \<and> open_file kos_consts demo_file_open 1
   \<and> fs_ext2_seek kos_consts 1 250 SEEK_SET demo_file_open
       = Returns 100 (fh_modify 0 (\<lambda>sl. sl\<lparr>fh_ptr := 100\<rparr>) demo_file_open)
   \<and> fs_ext2_seek kos_consts 1 250 7 demo_file_open = Returns (- 1) demo_file_open"
proof -
  note v = demo_file_open_valid
  from C4_seek_clamps_to_size[OF v(1,2), of SEEK_SET 250]
  obtain p' where a: "fs_ext2_seek kos_consts 1 250 SEEK_SET demo_file_open
                = Returns (ucast p') (fh_modify 0 (\<lambda>sl. sl\<lparr>fh_ptr := p'\<rparr>) demo_file_open)"
    and b: "uint p' = min ((seek_base SEEK_SET 0 100 + sint (250 :: u32)) mod seek_wrap SEEK_SET) (uint (100 :: u32))"
    by (auto simp: Let_def v)
  from b have "uint p' = 100"
    by (simp add: seek_base_def seek_wrap_def SEEK_SET_def SEEK_END_def)
  then have "word_of_int (uint p') = (100 :: u64)"
    by simp
  then have p: "p' = 100"
    by simp
  from C4_seek_clamps_to_size[OF v(1,2), of 7 250]
  have c: "fs_ext2_seek kos_consts 1 250 7 demo_file_open = Returns (- 1) demo_file_open"
    by (simp add: SEEK_SET_def SEEK_CUR_def SEEK_END_def)
  show ?thesis
    using a c v(1,2) by (simp add: p)
qed

text \<open>
  The claim as it was stated fails there: seeking to -1 from the start leaves the cursor
  at 100, the size of the file, and not at 0.
\<close>

theorem C4_seek_below_zero_counterexample:
  "sint (- 1 :: u32) < 0
   \<and> fs_ext2_seek kos_consts 1 (- 1) SEEK_SET demo_file_open
       = Returns 100 (fh_modify 0 (\<lambda>sl. sl\<lparr>fh_ptr := 100\<rparr>) demo_file_open)
   \<and> fh_ptr (fh (fh_modify 0 (\<lambda>sl. sl\<lparr>fh_ptr := 100\<rparr>) demo_file_open) 0) \<noteq> 0"
proof -
  note v = demo_file_open_valid
  have "clamp_ptr (seek_new_ptr_of SEEK_SET 0 100 (- 1)) 100 = 100"
    by (simp add: clamp_ptr_def seek_new_ptr_of_def)
  then show ?thesis
    using seek_outcome[OF v(1,2), of SEEK_SET "- 1"] by (simp add: v)
qed

subsection \<open>C5: open and the write, truncate and create flags\<close>

lemmas bk_call_defs = ext2_inode_by_path_def ext2_inode_get_def ext2_inode_put_def
  ext2_inode_alloc_def ext2_inode_deref_def ext2_inode_mark_dirty_def ext2_dir_entry_def
  ext2_dir_is_empty_def ext2_dir_rm_entry_def ext2_dir_add_entry_def ext2_dir_redir_entry_def
  ext2_dir_create_empty_def ext2_inode_read_block_def

lemma slot_free_idem: "fh_inode_num sl = 0 \<Longrightarrow> sl\<lparr>fh_inode_num := 0\<rparr> = sl"
  by (cases sl) simp

lemma find_free_fd_Some:
  "find_free_fd s = Some fd \<Longrightarrow> fh_inode_num (fh s fd) = 0 \<and> fd < 16"
  by (auto simp: find_free_fd_def MAX_EXT2_FILES_def find_Some_iff)

lemma find_free_fd_lock [simp]: "find_free_fd (mutex_lock s) = find_free_fd s"
  by (simp add: find_free_fd_def)

lemma open_rejects_writes:
  "mode AND (O_WRONLY K OR O_TRUNC K) \<noteq> 0 \<Longrightarrow>
   fs_ext2_open K bk mnt fn mode s = Returns 0 (set_errno EROFS s)"
  by (simp add: fs_ext2_open_def)

lemma open_not_found:
  assumes m: "mode AND (O_WRONLY K OR O_TRUNC K) = 0" and l: "\<not> ext2_mutex s"
    and f: "find_free_fd s = Some fd"
    and p: "bk_inode_by_path bk (mnt_fs mnt) fn (world s) = (Inl e, w)"
  shows "fs_ext2_open K bk mnt fn mode s =
           Returns 0 (s\<lparr>errno := (if e = ENOENT then (if mode AND O_CREAT K \<noteq> 0 then EROFS else ENOENT) else e),
                         world := bk_inode_put bk (fh_inode (fh s fd)) w,
                         trace := trace s @ [Inode_by_path fn None, Inode_put (fh_inode (fh s fd))]\<rparr>)"
proof -
  have z: "fh_inode_num (fh s fd) = 0" using find_free_fd_Some[OF f] by simp
  show ?thesis
    unfolding fs_ext2_open_def
    using m l
    apply (simp add: f Let_def bk_call_defs p)
    apply (intro conjI impI state.equality)
    apply (simp_all add: l z slot_free_idem)
    done
qed

lemma open_plain_file:
  assumes m: "mode AND (O_WRONLY K OR O_TRUNC K) = 0" and l: "\<not> ext2_mutex s"
    and f: "find_free_fd s = Some fd"
    and p: "bk_inode_by_path bk (mnt_fs mnt) fn (world s) = (Inr (ip, num), w)"
    and nd: "i_mode (heap w ip) AND EXT2_S_IFDIR K = 0" and md: "mode AND O_DIR K = 0"
  shows "fs_ext2_open K bk mnt fn mode s =
           Returns (int fd + 1)
             (s\<lparr>fh := (fh s)(fd := (fh s fd)\<lparr>fh_inode := ip, fh_inode_num := num, fh_mode := mode,
                                             fh_ptr := 0, fh_fs := mnt\<rparr>),
                world := w, trace := trace s @ [Inode_by_path fn (Some ip)]\<rparr>)"
  unfolding fs_ext2_open_def
  using m l nd md
  by (simp add: f Let_def bk_call_defs p fh_inode_obj_def)

text \<open>
  C5 (as amended). A mode that holds \<open>O_WRONLY\<close> or \<open>O_TRUNC\<close> makes open return
  \<open>NULL\<close> with \<open>EROFS\<close> before it takes the mutex or touches the table, whatever the
  path. Otherwise, with the mutex free and a free slot: when the backend does not find the path
  (\<open>ENOENT\<close>), open returns \<open>NULL\<close>, leaves the table as it was and reports
  \<open>EROFS\<close> if the mode holds \<open>O_CREAT\<close> and \<open>ENOENT\<close> if it does not; when the
  path resolves to an object that is not a directory and \<open>O_DIR\<close> is not asked for, open
  succeeds and fills the slot, with or without \<open>O_CREAT\<close> in the mode.
\<close>

theorem C5_open_rejects_write_and_truncate:
  fixes K :: kconsts and bk :: "'d backend" and s :: "'d state"
  shows
  "(mode AND (O_WRONLY K OR O_TRUNC K) \<noteq> 0 \<longrightarrow>
      fs_ext2_open K bk mnt fn mode s = Returns 0 (set_errno EROFS s))
   \<and> (mode AND (O_WRONLY K OR O_TRUNC K) = 0 \<and> \<not> ext2_mutex s \<and> find_free_fd s = Some fd
        \<and> bk_inode_by_path bk (mnt_fs mnt) fn (world s) = (Inl ENOENT, w) \<longrightarrow>
      returned (fs_ext2_open K bk mnt fn mode s) = Some 0
      \<and> errno (out_state (fs_ext2_open K bk mnt fn mode s))
          = (if mode AND O_CREAT K \<noteq> 0 then EROFS else ENOENT)
      \<and> fh (out_state (fs_ext2_open K bk mnt fn mode s)) = fh s
      \<and> \<not> ext2_mutex (out_state (fs_ext2_open K bk mnt fn mode s)))
   \<and> (mode AND (O_WRONLY K OR O_TRUNC K) = 0 \<and> \<not> ext2_mutex s \<and> find_free_fd s = Some fd
        \<and> bk_inode_by_path bk (mnt_fs mnt) fn (world s) = (Inr (ip, num), w)
        \<and> i_mode (heap w ip) AND EXT2_S_IFDIR K = 0 \<and> mode AND O_DIR K = 0 \<longrightarrow>
      returned (fs_ext2_open K bk mnt fn mode s) = Some (int fd + 1)
      \<and> fh (out_state (fs_ext2_open K bk mnt fn mode s)) fd
          = (fh s fd)\<lparr>fh_inode := ip, fh_inode_num := num, fh_mode := mode, fh_ptr := 0,
                       fh_fs := mnt\<rparr>
      \<and> \<not> ext2_mutex (out_state (fs_ext2_open K bk mnt fn mode s)))"
proof (intro conjI impI)
  assume "mode AND (O_WRONLY K OR O_TRUNC K) \<noteq> 0"
  then show "fs_ext2_open K bk mnt fn mode s = Returns 0 (set_errno EROFS s)"
    by (rule open_rejects_writes)
next
  assume a: "mode AND (O_WRONLY K OR O_TRUNC K) = 0 \<and> \<not> ext2_mutex s \<and> find_free_fd s = Some fd
        \<and> bk_inode_by_path bk (mnt_fs mnt) fn (world s) = (Inl ENOENT, w)"
  then have e: "fs_ext2_open K bk mnt fn mode s =
           Returns 0 (s\<lparr>errno := (if mode AND O_CREAT K \<noteq> 0 then EROFS else ENOENT),
                         world := bk_inode_put bk (fh_inode (fh s fd)) w,
                         trace := trace s @ [Inode_by_path fn None, Inode_put (fh_inode (fh s fd))]\<rparr>)"
    using open_not_found[of mode K s fd bk mnt fn ENOENT w] by simp
  show "returned (fs_ext2_open K bk mnt fn mode s) = Some 0" by (simp add: e)
  show "errno (out_state (fs_ext2_open K bk mnt fn mode s))
          = (if mode AND O_CREAT K \<noteq> 0 then EROFS else ENOENT)" by (simp add: e)
  show "fh (out_state (fs_ext2_open K bk mnt fn mode s)) = fh s" by (simp add: e)
  show "\<not> ext2_mutex (out_state (fs_ext2_open K bk mnt fn mode s))" using a by (simp add: e)
next
  assume a: "mode AND (O_WRONLY K OR O_TRUNC K) = 0 \<and> \<not> ext2_mutex s \<and> find_free_fd s = Some fd
        \<and> bk_inode_by_path bk (mnt_fs mnt) fn (world s) = (Inr (ip, num), w)
        \<and> i_mode (heap w ip) AND EXT2_S_IFDIR K = 0 \<and> mode AND O_DIR K = 0"
  then have e: "fs_ext2_open K bk mnt fn mode s =
           Returns (int fd + 1)
             (s\<lparr>fh := (fh s)(fd := (fh s fd)\<lparr>fh_inode := ip, fh_inode_num := num, fh_mode := mode,
                                             fh_ptr := 0, fh_fs := mnt\<rparr>),
                world := w, trace := trace s @ [Inode_by_path fn (Some ip)]\<rparr>)"
    using open_plain_file[of mode K s fd bk mnt fn ip num w] by simp
  show "returned (fs_ext2_open K bk mnt fn mode s) = Some (int fd + 1)" by (simp add: e)
  show "fh (out_state (fs_ext2_open K bk mnt fn mode s)) fd
          = (fh s fd)\<lparr>fh_inode := ip, fh_inode_num := num, fh_mode := mode, fh_ptr := 0,
                       fh_fs := mnt\<rparr>" by (simp add: e)
  show "\<not> ext2_mutex (out_state (fs_ext2_open K bk mnt fn mode s))" using a by (simp add: e)
qed

lemma demo_state_proj:
  "\<not> ext2_mutex demo_state" "fh demo_state = (\<lambda>fd. fh_zero)" "world demo_state = demo_world"
  "trace demo_state = []" "errno demo_state = E_unset" "initted demo_state"
  "ext2_fses demo_state = []"
  by (simp_all add: demo_state_eq)

lemma demo_by_path:
  "bk_inode_by_path demo_bk (mnt_fs demo_mnt) ''/a'' demo_world = (Inr (12, 12), demo_world)"
  "bk_inode_by_path demo_bk (mnt_fs demo_mnt) ''/zz'' demo_world = (Inl ENOENT, demo_world)"
  by (simp_all add: demo_bk_def demo_world_def)

text \<open>
  The theorem on the small filesystem: \<open>O_WRONLY\<close> on \<open>/a\<close> is refused, \<open>O_CREAT\<close>
  on the missing \<open>/zz\<close> gives \<open>EROFS\<close>, a plain open of \<open>/zz\<close> gives \<open>ENOENT\<close>,
  and a plain open of \<open>/a\<close> returns the handle 1.
\<close>

theorem C5_open_witness:
  "fs_ext2_open kos_consts demo_bk demo_mnt ''/a'' 1 demo_state = Returns 0 (set_errno EROFS demo_state)
   \<and> returned (fs_ext2_open kos_consts demo_bk demo_mnt ''/zz'' 0x200 demo_state) = Some 0
   \<and> errno (out_state (fs_ext2_open kos_consts demo_bk demo_mnt ''/zz'' 0x200 demo_state)) = EROFS
   \<and> fh (out_state (fs_ext2_open kos_consts demo_bk demo_mnt ''/zz'' 0x200 demo_state)) = fh demo_state
   \<and> returned (fs_ext2_open kos_consts demo_bk demo_mnt ''/zz'' 0 demo_state) = Some 0
   \<and> errno (out_state (fs_ext2_open kos_consts demo_bk demo_mnt ''/zz'' 0 demo_state)) = ENOENT
   \<and> returned (fs_ext2_open kos_consts demo_bk demo_mnt ''/a'' 0 demo_state) = Some 1"
proof -
  have f: "find_free_fd demo_state = Some 0"
    by (rule find_free_fd_first) (simp add: demo_state_proj fh_zero_def)
  have nd: "i_mode (heap demo_world 12) AND EXT2_S_IFDIR kos_consts = 0"
    by (simp add: demo_world_def demo_heap_def mk_inode_def kos_consts_def)
  note c = C5_open_rejects_write_and_truncate
  have 1: "fs_ext2_open kos_consts demo_bk demo_mnt ''/a'' 1 demo_state = Returns 0 (set_errno EROFS demo_state)"
    using c[of 1 kos_consts demo_bk demo_mnt "''/a''" demo_state] by (simp add: kos_consts_def)
  have 2: "returned (fs_ext2_open kos_consts demo_bk demo_mnt ''/zz'' 0x200 demo_state) = Some 0
   \<and> errno (out_state (fs_ext2_open kos_consts demo_bk demo_mnt ''/zz'' 0x200 demo_state)) = EROFS
   \<and> fh (out_state (fs_ext2_open kos_consts demo_bk demo_mnt ''/zz'' 0x200 demo_state)) = fh demo_state"
    using c[of "0x200" kos_consts demo_bk demo_mnt "''/zz''" demo_state 0 demo_world] f
    by (simp add: demo_state_proj demo_by_path) (simp add: kos_consts_def)
  have 3: "returned (fs_ext2_open kos_consts demo_bk demo_mnt ''/zz'' 0 demo_state) = Some 0
   \<and> errno (out_state (fs_ext2_open kos_consts demo_bk demo_mnt ''/zz'' 0 demo_state)) = ENOENT"
    using c[of 0 kos_consts demo_bk demo_mnt "''/zz''" demo_state 0 demo_world] f
    by (simp add: demo_state_proj demo_by_path)
  have 4: "returned (fs_ext2_open kos_consts demo_bk demo_mnt ''/a'' 0 demo_state) = Some 1"
    using c[of 0 kos_consts demo_bk demo_mnt "''/a''" demo_state 0 demo_world 12 12] f nd
    by (simp add: demo_state_proj demo_by_path)
  show ?thesis using 1 2 3 4 by simp
qed

text \<open>
  The claim as it was stated fails: open of the existing file \<open>/a\<close> with \<open>O_CREAT\<close>
  (0x200) returns the handle 1, sets no error and fills slot 0.
\<close>

theorem C5_open_create_existing_counterexample:
  "(0x200 :: u32) AND O_CREAT kos_consts \<noteq> 0
   \<and> returned (fs_ext2_open kos_consts demo_bk demo_mnt ''/a'' 0x200 demo_state) = Some 1
   \<and> errno (out_state (fs_ext2_open kos_consts demo_bk demo_mnt ''/a'' 0x200 demo_state)) = E_unset
   \<and> fh_inode_num (fh (out_state (fs_ext2_open kos_consts demo_bk demo_mnt ''/a'' 0x200 demo_state)) 0) = 12
   \<and> fh_mode (fh (out_state (fs_ext2_open kos_consts demo_bk demo_mnt ''/a'' 0x200 demo_state)) 0) = 0x200"
  by code_simp

subsection \<open>C1, C2, C3, C6, C9: runs on the small filesystem\<close>

text \<open>
  C1. rename of \<open>/a\<close> to \<open>/b\<close> on a read-write mount: the entry is moved, and then
  the function calls \<open>mutex_lock\<close> on the mutex it still holds instead of unlocking it. It
  does not return, the mutex stays held, and the next operation (here tell) blocks as well.
\<close>

theorem C1_rename_takes_mutex_twice:
  "returned (fs_ext2_rename kos_consts demo_bk demo_mnt (Some ''/a'') (Some ''/b'') demo_state) = None
   \<and> ext2_mutex (out_state (fs_ext2_rename kos_consts demo_bk demo_mnt (Some ''/a'') (Some ''/b'') demo_state))
   \<and> entries (disk (world (out_state
         (fs_ext2_rename kos_consts demo_bk demo_mnt (Some ''/a'') (Some ''/b'') demo_state))))
       = [(''d'', 13), (''b'', 12)]
   \<and> fs_ext2_tell kos_consts 1
         (out_state (fs_ext2_rename kos_consts demo_bk demo_mnt (Some ''/a'') (Some ''/b'') demo_state))
       = Blocks (out_state (fs_ext2_rename kos_consts demo_bk demo_mnt (Some ''/a'') (Some ''/b'') demo_state))"
  by (simp add: fs_ext2_tell_def) code_simp

text \<open>
  C2. mount when \<open>nmmgr_handler_add\<close> fails: the function returns -1 and frees the mount
  and its handler, but the mount (address 100) is still in \<open>ext2_fses\<close>, which was empty
  before the call. An unmount afterwards walks the list into the freed object.
\<close>

theorem C2_mount_leaves_freed_mount_in_list:
  "returned (fs_ext2_mount kos_consts demo_bk_no_nmmgr ''/ext2'' demo_dev 1 demo_state) = Some (- 1)
   \<and> ext2_fses demo_state = []
   \<and> ext2_fses (out_state (fs_ext2_mount kos_consts demo_bk_no_nmmgr ''/ext2'' demo_dev 1 demo_state)) = [100]
   \<and> mounts (out_state (fs_ext2_mount kos_consts demo_bk_no_nmmgr ''/ext2'' demo_dev 1 demo_state)) 100 = None
   \<and> returned (fs_ext2_unmount demo_bk_no_nmmgr ''/ext2''
        (out_state (fs_ext2_mount kos_consts demo_bk_no_nmmgr ''/ext2'' demo_dev 1 demo_state))) = None"
  by code_simp

text \<open>
  C3. rename when the inode of the source entry cannot be fetched: the parent directory was
  acquired by path and is never put. The call acquires one reference and releases none.
\<close>

theorem C3_rename_leaks_parent_inode:
  "returned (fs_ext2_rename kos_consts demo_bk_no_get demo_mnt (Some ''/a'') (Some ''/b'') demo_state) = Some (- 1)
   \<and> trace (out_state (fs_ext2_rename kos_consts demo_bk_no_get demo_mnt (Some ''/a'') (Some ''/b'') demo_state))
       = [Inode_by_path [] (Some 2), Dir_entry 2 ''a'' True, Inode_get 12 None]
   \<and> acquisitions (trace (out_state
         (fs_ext2_rename kos_consts demo_bk_no_get demo_mnt (Some ''/a'') (Some ''/b'') demo_state))) = 1
   \<and> releases (trace (out_state
         (fs_ext2_rename kos_consts demo_bk_no_get demo_mnt (Some ''/a'') (Some ''/b'') demo_state))) = 0"
  by code_simp

lemma demo_rdonly_open_handle:
  "returned (fs_ext2_open kos_consts demo_bk demo_mnt ''/a'' 0 demo_state) = Some 1"
  by code_simp

text \<open>
  C6. A file opened with mode 0 (\<open>O_RDONLY\<close>) gets the handle 1
  (\<open>demo_rdonly_open\<close> is the state after that open). close tests
  \<open>fh[fd].mode\<close>, finds 0 and does nothing: the slot keeps its inode number, no inode is
  put, and tell, total, seek and read on the handle still succeed after the close.
\<close>

theorem C6_close_keeps_rdonly_handle_open:
  "returned (fs_ext2_close demo_bk 1 demo_rdonly_open) = Some ()
   \<and> fh_inode_num (fh (out_state (fs_ext2_close demo_bk 1 demo_rdonly_open)) 0) = 12
   \<and> trace (out_state (fs_ext2_close demo_bk 1 demo_rdonly_open)) = trace demo_rdonly_open
   \<and> returned (fs_ext2_tell kos_consts 1 (out_state (fs_ext2_close demo_bk 1 demo_rdonly_open))) = Some 0
   \<and> returned (fs_ext2_total kos_consts 1 (out_state (fs_ext2_close demo_bk 1 demo_rdonly_open))) = Some 100
   \<and> returned (fs_ext2_seek kos_consts 1 40 SEEK_SET (out_state (fs_ext2_close demo_bk 1 demo_rdonly_open)))
       = Some 40
   \<and> map_option returned
        (fs_ext2_read kos_consts demo_bk 1 3 (out_state (fs_ext2_close demo_bk 1 demo_rdonly_open)))
       = Some (Some (3, [0x41, 0x41, 0x41]))"
  by code_simp

text \<open>
  C9. With \<open>/a\<close> open through a handle of mode 0, unlink of \<open>/a\<close> fails with
  \<open>EBUSY\<close>. After close of that handle the same unlink fails with \<open>EBUSY\<close> again and
  the entry is still there, because close did not free the slot.
\<close>

theorem C9_unlink_still_busy_after_close:
  "returned (fs_ext2_unlink kos_consts demo_bk demo_mnt (Some ''/a'') demo_rdonly_open) = Some (- 1)
   \<and> errno (out_state (fs_ext2_unlink kos_consts demo_bk demo_mnt (Some ''/a'') demo_rdonly_open)) = EBUSY
   \<and> returned (fs_ext2_close demo_bk 1 demo_rdonly_open) = Some ()
   \<and> returned (fs_ext2_unlink kos_consts demo_bk demo_mnt (Some ''/a'')
        (out_state (fs_ext2_close demo_bk 1 demo_rdonly_open))) = Some (- 1)
   \<and> errno (out_state (fs_ext2_unlink kos_consts demo_bk demo_mnt (Some ''/a'')
        (out_state (fs_ext2_close demo_bk 1 demo_rdonly_open)))) = EBUSY
   \<and> entries (disk (world (out_state (fs_ext2_unlink kos_consts demo_bk demo_mnt (Some ''/a'')
        (out_state (fs_ext2_close demo_bk 1 demo_rdonly_open))))))
       = [(''a'', 12), (''d'', 13)]"
  by code_simp

subsection \<open>C10: rmdir\<close>

text \<open>
  C10. On a read-write mount, for a path that is neither empty nor \<open>/\<close> and has a
  slash, with the mutex free: if the parent resolves to a directory, the entry exists and its
  inode is a directory that no open file refers to, and the backend removes the entry and
  dereferences the inode, then rmdir returns 0. It calls, in this order, the removal of the
  entry from the parent, the put of the target, the dereference of the target as a directory,
  then stores the times and the link count minus one into the parent, marks it dirty and puts
  it. \<open>ext2_dir_is_empty\<close> is not among the calls, and nothing is assumed about it: the
  result is the same for an empty and for a non-empty directory.
\<close>

theorem C10_rmdir_does_not_check_emptiness:
  fixes K :: kconsts and bk :: "'d backend" and s :: "'d state"
  assumes rw: "mount_flags mnt AND FS_EXT2_MOUNT_READWRITE K \<noteq> 0"
    and path: "fn \<noteq> []" "fn \<noteq> ''/''" "bk_strdup bk fn (world s)" "strrchr_split fn = Some (cp, ent)"
    and free: "\<not> ext2_mutex s"
    and parent: "bk_inode_by_path bk (mnt_fs mnt) cp (world s) = (Inr (pinode, pnum), w1)"
      "is_dir K (heap w1 pinode)"
    and target: "bk_dir_entry bk (mnt_fs mnt) pinode ent w1 = (Some dent, w2)"
      "bk_inode_get bk (mnt_fs mnt) (de_inode dent) w2 = (Some inode, w3)"
      "is_dir K (heap w3 inode)"
    and idle: "\<not> fh_busy s (de_inode dent)"
    and removed: "bk_dir_rm_entry bk (mnt_fs mnt) pinode ent w3 = (Inr in_num, w4)"
    and dereffed: "bk_inode_deref bk (mnt_fs mnt) in_num True (bk_inode_put bk inode w4) = (None, w5)"
  shows "fs_ext2_rmdir K bk mnt (Some fn) s =
     Returns 0
       (s\<lparr>world :=
             bk_inode_put bk pinode
               (bk_inode_mark_dirty bk pinode
                  (w5\<lparr>heap := (heap w5)(pinode := (heap w5 pinode)
                        \<lparr>i_ctime := bk_time bk w5, i_mtime := bk_time bk w5,
                         i_links_count := i_links_count (heap w5 pinode) - 1\<rparr>)\<rparr>)),
           trace := trace s @
             [Inode_by_path cp (Some pinode), Dir_entry pinode ent True,
              Inode_get (de_inode dent) (Some inode), Dir_rm_entry pinode ent True,
              Inode_put inode, Inode_deref in_num True True, Inode_mark_dirty pinode,
              Inode_put pinode]\<rparr>)"
proof -
  have b: "\<not> fh_busy (s\<lparr>ext2_mutex := True, world := w, trace := t\<rparr>) (de_inode dent)" for w t
    using idle by (simp add: fh_busy_def)
  show ?thesis
    unfolding fs_ext2_rmdir_def
    using rw path free parent(2) target(3)
    apply (simp add: failed_def Let_def bk_call_defs parent(1) target(1,2) removed dereffed
        called_def mutex_lock_def mutex_unlock_def inode_store_def b)
    done
qed

text \<open>
  The theorem on the small filesystem, with a backend whose \<open>ext2_dir_is_empty\<close> says
  that the directory \<open>/d\<close> is not empty (it returns 0): rmdir of \<open>/d\<close> returns 0,
  the entry is gone and the link count of the root went from 3 to 2.
\<close>

theorem C10_rmdir_witness:
  "bk_dir_is_empty demo_bk_nonempty (mnt_fs demo_mnt) 13 demo_world = (0, demo_world)
   \<and> returned (fs_ext2_rmdir kos_consts demo_bk_nonempty demo_mnt (Some ''/d'') demo_state) = Some 0
   \<and> entries (disk (world (out_state
         (fs_ext2_rmdir kos_consts demo_bk_nonempty demo_mnt (Some ''/d'') demo_state))))
       = [(''a'', 12)]
   \<and> i_links_count (heap (world demo_state) 2) = 3
   \<and> i_links_count (heap (world (out_state
         (fs_ext2_rmdir kos_consts demo_bk_nonempty demo_mnt (Some ''/d'') demo_state))) 2) = 2"
proof -
  define w4 where "w4 = demo_world\<lparr>disk := \<lparr>entries = [(''a'', 12)], next_addr = 100\<rparr>\<rparr>"
  define dent where "dent = \<lparr>de_inode = 13, rec_len = 12, name_len = 1, de_name = ''d''\<rparr>"
  have rw: "mount_flags demo_mnt AND FS_EXT2_MOUNT_READWRITE kos_consts \<noteq> 0"
    by (simp add: demo_mnt_def kos_consts_def)
  have p1: "''/d'' \<noteq> []" and p2: "''/d'' \<noteq> ''/''"
    and p3: "bk_strdup demo_bk_nonempty ''/d'' (world demo_state)"
    and p4: "strrchr_split ''/d'' = Some ([], ''d'')"
    by (simp_all add: demo_bk_nonempty_def demo_bk_def strrchr_split_def)
  have free: "\<not> ext2_mutex demo_state"
    by (simp add: demo_state_proj)
  have parent: "bk_inode_by_path demo_bk_nonempty (mnt_fs demo_mnt) [] (world demo_state)
                  = (Inr (2, 2), demo_world)"
    and pdir: "is_dir kos_consts (heap demo_world 2)"
    by (simp_all add: demo_bk_nonempty_def demo_bk_def demo_state_proj is_dir_def demo_world_def
        demo_heap_def mk_inode_def kos_consts_def)
  have target: "bk_dir_entry demo_bk_nonempty (mnt_fs demo_mnt) 2 ''d'' demo_world = (Some dent, demo_world)"
    and get: "bk_inode_get demo_bk_nonempty (mnt_fs demo_mnt) (de_inode dent) demo_world
                = (Some 13, demo_world)"
    and tdir: "is_dir kos_consts (heap demo_world 13)"
    by (simp_all add: demo_bk_nonempty_def demo_bk_def dent_def is_dir_def demo_world_def
        demo_heap_def mk_inode_def kos_consts_def)
  have idle: "\<not> fh_busy demo_state (de_inode dent)"
    by (simp add: fh_busy_def list_ex_iff demo_state_proj fh_zero_def dent_def)
  have removed: "bk_dir_rm_entry demo_bk_nonempty (mnt_fs demo_mnt) 2 ''d'' demo_world = (Inr 13, w4)"
    by (simp add: demo_bk_nonempty_def demo_bk_def demo_world_def w4_def)
  have dereffed: "bk_inode_deref demo_bk_nonempty (mnt_fs demo_mnt) 13 True
                    (bk_inode_put demo_bk_nonempty 13 w4) = (None, w4)"
    by (simp add: demo_bk_nonempty_def demo_bk_def)
  note r = C10_rmdir_does_not_check_emptiness[OF rw p1 p2 p3 p4 free parent pdir target get tdir
      idle removed dereffed]
  have e: "bk_dir_is_empty demo_bk_nonempty (mnt_fs demo_mnt) 13 demo_world = (0, demo_world)"
    by (simp add: demo_bk_nonempty_def demo_bk_def)
  show ?thesis
    by (simp add: r e) (simp add: demo_bk_nonempty_def demo_bk_def w4_def demo_world_def
        demo_state_proj demo_heap_def mk_inode_def)
qed

subsection \<open>C7: read\<close>




lemma read_finish_Some [simp]:
  "read_finish rv (Some (ok, buf, s)) = Some (Returns (if ok then rv else - 1, buf) (mutex_unlock s))"
  by (simp add: read_finish_def)









subsection \<open>C8: readdir\<close>










end
